theory Spec2Isabelle
  imports Complex_Main
begin

section \<open>JavaScript numbers\<close>

text \<open>
  The dashboard is written in JavaScript: every number is an IEEE double. The model keeps
  the three special values apart and holds a finite number as the exact rational it
  denotes. \<open>num_div\<close>, \<open>num_sub\<close>, \<open>num_add\<close> and \<open>num_mul\<close> compute on these rationals
  exactly. \<open>Number_value\<close> rounds a rational to the double nearest to it, and the
  operators of the language are the exact operations followed by this rounding
  (\<open>Number_divide\<close>, \<open>Number_add\<close>): the rate calculator and the aggregates use them. The
  pagination computes on integers, which the rounding leaves as they are up to \<open>2 ^ 53\<close>,
  and the comparator of the sort uses the sign of a difference only: there the exact
  operations stand for the operators. The sign of zero is not modelled (the one place it
  could show, the sign of the infinity produced by a division by zero, is discarded by
  every caller here).
\<close>

datatype number = Finite rat | PosInfinity | NegInfinity | NaN

fun num_isNaN :: "number \<Rightarrow> bool" where
  "num_isNaN NaN = True"
| "num_isNaN _ = False"

fun num_isFinite :: "number \<Rightarrow> bool" where
  "num_isFinite (Finite _) = True"
| "num_isFinite _ = False"

fun num_neg :: "number \<Rightarrow> number" where
  "num_neg (Finite a) = Finite (- a)"
| "num_neg PosInfinity = NegInfinity"
| "num_neg NegInfinity = PosInfinity"
| "num_neg NaN = NaN"

text \<open>The quotient of two numbers, exact on finite numbers.\<close>

fun num_div :: "number \<Rightarrow> number \<Rightarrow> number" where
  "num_div (Finite a) (Finite b) =
     (if b = 0 then (if a = 0 then NaN else if 0 < a then PosInfinity else NegInfinity)
      else Finite (a / b))"
| "num_div (Finite a) PosInfinity = Finite 0"
| "num_div (Finite a) NegInfinity = Finite 0"
| "num_div PosInfinity (Finite b) = (if b < 0 then NegInfinity else PosInfinity)"
| "num_div NegInfinity (Finite b) = (if b < 0 then PosInfinity else NegInfinity)"
| "num_div _ _ = NaN"

text \<open>The difference of two numbers, exact on finite numbers.\<close>

fun num_sub :: "number \<Rightarrow> number \<Rightarrow> number" where
  "num_sub (Finite a) (Finite b) = Finite (a - b)"
| "num_sub (Finite a) PosInfinity = NegInfinity"
| "num_sub (Finite a) NegInfinity = PosInfinity"
| "num_sub PosInfinity (Finite b) = PosInfinity"
| "num_sub PosInfinity NegInfinity = PosInfinity"
| "num_sub NegInfinity (Finite b) = NegInfinity"
| "num_sub NegInfinity PosInfinity = NegInfinity"
| "num_sub _ _ = NaN"

text \<open>The operator \<^verbatim>\<open><\<close> on numbers: false as soon as one side is NaN.\<close>

fun num_lt :: "number \<Rightarrow> number \<Rightarrow> bool" where
  "num_lt (Finite a) (Finite b) = (a < b)"
| "num_lt (Finite a) PosInfinity = True"
| "num_lt NegInfinity (Finite b) = True"
| "num_lt NegInfinity PosInfinity = True"
| "num_lt _ _ = False"

text \<open>\<^verbatim>\<open>Math.ceil\<close>.\<close>

fun Math_ceil :: "number \<Rightarrow> number" where
  "Math_ceil (Finite a) = Finite (of_int \<lceil>a\<rceil>)"
| "Math_ceil x = x"

subsection \<open>Doubles\<close>

text \<open>
  The double nearest to a rational \<open>x\<close>. \<open>ilog2\<close> finds the binary exponent \<open>e\<close> of
  \<open>\<bar>x\<bar>\<close> (\<open>2 ^ e \<le> \<bar>x\<bar> < 2 ^ (e + 1)\<close>, searched by halving or doubling at most 1100
  times, which covers the range of the doubles); the doubles around \<open>x\<close> are the multiples
  of the \<open>quantum\<close> \<open>2 ^ (e - 52)\<close>, or of \<open>2 ^ - 1074\<close> for a subnormal; \<open>x\<close> is
  rounded to the nearest multiple, a tie going to the even one. \<open>Number_value\<close> is the
  number that results: an infinity when the nearest multiple is \<open>2 ^ 1024\<close> or beyond.
\<close>

definition pow2 :: "int \<Rightarrow> rat" where
  "pow2 e = (if 0 \<le> e then 2 ^ nat e else 1 / 2 ^ nat (- e))"

primrec ilog2 :: "nat \<Rightarrow> rat \<Rightarrow> int" where
  "ilog2 0 a = 0"
| "ilog2 (Suc fuel) a =
     (if 2 \<le> a then ilog2 fuel (a / 2) + 1
      else if a < 1 then ilog2 fuel (a * 2) - 1
      else 0)"

definition round_half_even :: "rat \<Rightarrow> int" where
  "round_half_even y =
     (let f = \<lfloor>y\<rfloor>; d = y - of_int f
      in if d < 1 / 2 then f else if 1 / 2 < d then f + 1 else if even f then f else f + 1)"

definition quantum :: "int \<Rightarrow> rat" where
  "quantum e = pow2 (max e (- 1022) - 52)"

definition round_to :: "rat \<Rightarrow> rat \<Rightarrow> rat" where
  "round_to q x = sgn x * (of_int (round_half_even (\<bar>x\<bar> / q)) * q)"

definition nearest :: "rat \<Rightarrow> rat" where
  "nearest x = (if x = 0 then 0 else round_to (quantum (ilog2 1100 \<bar>x\<bar>)) x)"

definition Number_value :: "rat \<Rightarrow> number" where
  "Number_value x =
     (let y = nearest x
      in if 2 ^ 1024 \<le> \<bar>y\<bar> then (if 0 < x then PosInfinity else NegInfinity) else Finite y)"

text \<open>
  \<open>to_double\<close> makes a double of a number that may not be one (the exact value of a
  numeric string, or of a literal of the program). The operators \<^verbatim>\<open>/\<close> and \<^verbatim>\<open>+\<close> on two
  doubles: the exact result, rounded.
\<close>

fun to_double :: "number \<Rightarrow> number" where
  "to_double (Finite x) = Number_value x"
| "to_double v = v"

fun num_add :: "number \<Rightarrow> number \<Rightarrow> number" where
  "num_add (Finite a) (Finite b) = Finite (a + b)"
| "num_add NaN _ = NaN"
| "num_add _ NaN = NaN"
| "num_add PosInfinity NegInfinity = NaN"
| "num_add NegInfinity PosInfinity = NaN"
| "num_add PosInfinity _ = PosInfinity"
| "num_add _ PosInfinity = PosInfinity"
| "num_add NegInfinity _ = NegInfinity"
| "num_add _ NegInfinity = NegInfinity"

definition Number_divide :: "number \<Rightarrow> number \<Rightarrow> number" where
  "Number_divide a b = to_double (num_div a b)"

definition Number_add :: "number \<Rightarrow> number \<Rightarrow> number" where
  "Number_add a b = to_double (num_add a b)"

section \<open>Strings and the printing of numbers\<close>

text \<open>
  A string is a list of code units; the model has the code units below 256.
\<close>

definition digit_char :: "nat \<Rightarrow> char" where
  "digit_char d = ''0123456789'' ! (d mod 10)"

text \<open>The decimal digits of a natural number, without leading zeros.\<close>

fun digits :: "nat \<Rightarrow> string" where
  "digits n = (if n < 10 then [digit_char n] else digits (n div 10) @ [digit_char (n mod 10)])"

declare digits.simps [simp del]

text \<open>
  \<^verbatim>\<open>Number::toString\<close> (radix 10) of ECMAScript. For a finite nonzero \<open>x\<close> the
  standard takes the integers \<open>n\<close>, \<open>k\<close> and \<open>s\<close> with \<open>k\<close> as small as possible such
  that \<open>s\<close> has \<open>k\<close> digits and \<open>s * 10 ^ (n - k)\<close> reads back as \<open>x\<close> (its nearest double
  is \<open>x\<close>), takes the \<open>s\<close> nearest to \<open>x\<close> when there are several (the even one of two
  equally near), and prints the digits of \<open>s\<close> in one of four layouts chosen by \<open>n\<close>.
  \<open>shortest\<close> searches from one digit up: with the last digit at the decimal position
  \<open>ex\<close>, the candidates are the two multiples of \<open>10 ^ ex\<close> around \<open>x\<close> (\<open>pick\<close>); 17
  digits read back as any double.
\<close>

definition pow10 :: "int \<Rightarrow> rat" where
  "pow10 e = (if 0 \<le> e then 10 ^ nat e else 1 / 10 ^ nat (- e))"

primrec ilog10 :: "nat \<Rightarrow> rat \<Rightarrow> int" where
  "ilog10 0 a = 0"
| "ilog10 (Suc fuel) a =
     (if 10 \<le> a then ilog10 fuel (a / 10) + 1
      else if a < 1 then ilog10 fuel (a * 10) - 1
      else 0)"

definition reads_back :: "rat \<Rightarrow> rat \<Rightarrow> bool" where
  "reads_back x d = (Number_value d = Finite x)"

definition pick :: "rat \<Rightarrow> rat \<Rightarrow> int \<Rightarrow> int option" where
  "pick x scale lo =
     (let hi = lo + 1;
          dl = x - of_int lo * scale;
          dh = of_int hi * scale - x
      in if reads_back x (of_int lo * scale)
         then (if reads_back x (of_int hi * scale) \<and> (dh < dl \<or> (dh = dl \<and> odd lo))
               then Some hi else Some lo)
         else if reads_back x (of_int hi * scale) then Some hi else None)"

primrec shortest :: "nat \<Rightarrow> rat \<Rightarrow> int \<Rightarrow> int \<times> int" where
  "shortest 0 x ex = (\<lfloor>x / pow10 ex\<rfloor>, ex)"
| "shortest (Suc fuel) x ex =
     (case pick x (pow10 ex) \<lfloor>x / pow10 ex\<rfloor> of
        Some s \<Rightarrow> (s, ex)
      | None \<Rightarrow> shortest fuel x (ex - 1))"

definition strip_zeros :: "string \<Rightarrow> string" where
  "strip_zeros ds = rev (dropWhile (\<lambda>c. c = CHR ''0'') (rev ds))"

definition pos_toString :: "rat \<Rightarrow> string" where
  "pos_toString x =
     (case shortest 17 x (ilog10 400 x) of
        (m, ex) \<Rightarrow>
          (let ds = digits (nat m);
               s = strip_zeros ds;
               k = int (length s);
               n = int (length ds) + ex
           in if k \<le> n \<and> n \<le> 21 then s @ replicate (nat (n - k)) (CHR ''0'')
              else if 0 < n \<and> n \<le> 21 then take (nat n) s @ ''.'' @ drop (nat n) s
              else if - 6 < n \<and> n \<le> 0 then ''0.'' @ replicate (nat (- n)) (CHR ''0'') @ s
              else (let e = n - 1;
                        es = (if e < 0 then ''-'' else ''+'') @ digits (nat \<bar>e\<bar>)
                    in if k = 1 then s @ ''e'' @ es
                       else take 1 s @ ''.'' @ drop 1 s @ ''e'' @ es)))"

fun Number_toString :: "number \<Rightarrow> string" where
  "Number_toString NaN = ''NaN''"
| "Number_toString PosInfinity = ''Infinity''"
| "Number_toString NegInfinity = ''-Infinity''"
| "Number_toString (Finite x) =
     (if x = 0 then ''0'' else if x < 0 then ''-'' @ pos_toString (- x) else pos_toString x)"

text \<open>
  \<^verbatim>\<open>Number.prototype.toFixed(f)\<close> of ECMAScript, step by step: a number that is not
  finite prints as \<^verbatim>\<open>Number::toString\<close> does; the sign is split off; a magnitude of
  \<open>10 ^ 21\<close> or more prints as \<^verbatim>\<open>Number::toString\<close> does (exponent notation); below it,
  \<open>n\<close> is the integer nearest to \<open>x * 10 ^ f\<close> (the larger of two), its digits are padded
  with zeros on the left to \<open>f + 1\<close> characters, and the point goes before the last \<open>f\<close>.
  The program calls it with \<open>f = 4\<close> and \<open>f = 5\<close> only; the RangeError of \<open>f > 100\<close>
  cannot arise.
\<close>

definition toFixed :: "nat \<Rightarrow> number \<Rightarrow> string" where
  "toFixed f v =
     (case v of
        Finite x0 \<Rightarrow>
          (let s = (if x0 < 0 then ''-'' else '''');
               x = \<bar>x0\<bar>
           in if 10 ^ 21 \<le> x then s @ Number_toString (Finite x)
              else (let n = nat \<lfloor>x * 10 ^ f + 1 / 2\<rfloor>;
                        m = digits n
                    in if f \<noteq> 0
                       then (let m' = replicate (f + 1 - length m) (CHR ''0'') @ m;
                                 k = length m'
                             in s @ take (k - f) m' @ ''.'' @ drop (k - f) m')
                       else s @ m))
      | _ \<Rightarrow> Number_toString v)"

section \<open>JavaScript values\<close>

text \<open>
  The values a field of a record or of a table row holds: the primitives that JSON and the
  program's arithmetic produce. An object is the list of its own properties, in insertion
  order; reading a property it does not have gives \<^verbatim>\<open>undefined\<close>. (The names this
  program reads are data fields; none is a property inherited from a built-in prototype.)
\<close>

datatype jsval = JUndefined | JNull | JBool bool | JNum number | JStr string

type_synonym obj = "(string \<times> jsval) list"

definition obj_get :: "obj \<Rightarrow> string \<Rightarrow> jsval" where
  "obj_get ob k = (case map_of ob k of Some v \<Rightarrow> v | None \<Rightarrow> JUndefined)"

definition obj_set :: "obj \<Rightarrow> string \<Rightarrow> jsval \<Rightarrow> obj" where
  "obj_set ob k v =
     (if k \<in> fst ` set ob then map (\<lambda>(k', v'). if k' = k then (k', v) else (k', v')) ob
      else ob @ [(k, v)])"

text \<open>Truthiness, as \<^verbatim>\<open>!x\<close>, \<^verbatim>\<open>x || y\<close> and \<^verbatim>\<open>if (x)\<close> test it.\<close>

fun truthy :: "jsval \<Rightarrow> bool" where
  "truthy JUndefined = False"
| "truthy JNull = False"
| "truthy (JBool b) = b"
| "truthy (JNum (Finite x)) = (x \<noteq> 0)"
| "truthy (JNum NaN) = False"
| "truthy (JNum _) = True"
| "truthy (JStr s) = (s \<noteq> [])"

text \<open>The operator \<^verbatim>\<open>===\<close>: same type and same value; NaN equals nothing.\<close>

fun strict_equals :: "jsval \<Rightarrow> jsval \<Rightarrow> bool" where
  "strict_equals (JNum a) (JNum b) = (\<not> num_isNaN a \<and> a = b)"
| "strict_equals a b = (a = b)"

subsection \<open>Strings to numbers\<close>

text \<open>
  \<^verbatim>\<open>StringToNumber\<close> of ECMAScript, which \<^verbatim>\<open>Number(s)\<close>, \<^verbatim>\<open>+s\<close>, \<^verbatim>\<open>isNaN(s)\<close> and
  the arithmetic operators apply to a string: white space is trimmed on both sides, the
  empty string is 0, and what is left must be, as a whole, a signed decimal literal
  (digits with an optional fraction and exponent, or \<^verbatim>\<open>Infinity\<close>) or an unsigned
  hexadecimal, octal or binary integer literal; anything else is NaN.
\<close>

definition is_ws :: "char \<Rightarrow> bool" where
  "is_ws c = (c \<in> {CHR 0x09, CHR 0x0A, CHR 0x0B, CHR 0x0C, CHR 0x0D, CHR 0x20, CHR 0xA0})"

definition trim_start :: "string \<Rightarrow> string" where
  "trim_start s = dropWhile is_ws s"

definition trim :: "string \<Rightarrow> string" where
  "trim s = rev (trim_start (rev (trim_start s)))"

definition digit_of :: "char \<Rightarrow> nat option" where
  "digit_of c = map_of
     [(CHR ''0'', 0), (CHR ''1'', 1), (CHR ''2'', 2), (CHR ''3'', 3), (CHR ''4'', 4),
      (CHR ''5'', 5), (CHR ''6'', 6), (CHR ''7'', 7), (CHR ''8'', 8), (CHR ''9'', 9),
      (CHR ''a'', 10), (CHR ''b'', 11), (CHR ''c'', 12), (CHR ''d'', 13), (CHR ''e'', 14),
      (CHR ''f'', 15), (CHR ''A'', 10), (CHR ''B'', 11), (CHR ''C'', 12), (CHR ''D'', 13),
      (CHR ''E'', 14), (CHR ''F'', 15)] c"

definition is_digit_of :: "nat \<Rightarrow> char \<Rightarrow> bool" where
  "is_digit_of base c = (case digit_of c of Some d \<Rightarrow> d < base | None \<Rightarrow> False)"

definition nat_of_digits :: "nat \<Rightarrow> string \<Rightarrow> nat" where
  "nat_of_digits base ds = foldl (\<lambda>acc c. acc * base + the (digit_of c)) 0 ds"

text \<open>An exponent part \<^verbatim>\<open>e\<close>, optional sign, digits: its value and the rest; 0 and the
  whole input when there is none.\<close>

definition parse_exponent :: "string \<Rightarrow> int \<times> string" where
  "parse_exponent s =
     (case s of
        [] \<Rightarrow> (0, s)
      | c # t \<Rightarrow>
          if c = CHR ''e'' \<or> c = CHR ''E'' then
            (let neg = (t \<noteq> [] \<and> hd t = CHR ''-'');
                 t' = (if t \<noteq> [] \<and> (hd t = CHR ''-'' \<or> hd t = CHR ''+'') then tl t else t);
                 ds = takeWhile (is_digit_of 10) t'
             in if ds = [] then (0, s)
                else ((if neg then - int (nat_of_digits 10 ds) else int (nat_of_digits 10 ds)),
                      dropWhile (is_digit_of 10) t'))
          else (0, s))"

definition scale10 :: "rat \<Rightarrow> int \<Rightarrow> rat" where
  "scale10 x ex = (if 0 \<le> ex then x * 10 ^ nat ex else x / 10 ^ nat (- ex))"

text \<open>The longest prefix that is an unsigned decimal literal: its value and the rest.\<close>

definition parse_unsigned_decimal :: "string \<Rightarrow> (number \<times> string) option" where
  "parse_unsigned_decimal s =
     (if take 8 s = ''Infinity'' then Some (PosInfinity, drop 8 s)
      else (let ip = takeWhile (is_digit_of 10) s;
                r1 = dropWhile (is_digit_of 10) s;
                dot = (r1 \<noteq> [] \<and> hd r1 = CHR ''.'');
                fp = (if dot then takeWhile (is_digit_of 10) (tl r1) else []);
                r2 = (if dot then dropWhile (is_digit_of 10) (tl r1) else r1)
            in if ip = [] \<and> fp = [] then None
               else (let (ex, r3) = parse_exponent r2;
                         m = of_nat (nat_of_digits 10 ip)
                             + of_nat (nat_of_digits 10 fp) / 10 ^ length fp
                     in Some (Finite (scale10 m ex), r3))))"

definition parse_signed_decimal :: "string \<Rightarrow> (number \<times> string) option" where
  "parse_signed_decimal s =
     (if s \<noteq> [] \<and> hd s = CHR ''-''
      then map_option (\<lambda>(v, r). (num_neg v, r)) (parse_unsigned_decimal (tl s))
      else if s \<noteq> [] \<and> hd s = CHR ''+'' then parse_unsigned_decimal (tl s)
      else parse_unsigned_decimal s)"

definition parse_nondecimal :: "string \<Rightarrow> number option" where
  "parse_nondecimal s =
     (if length s < 3 \<or> hd s \<noteq> CHR ''0'' then None
      else (let p = s ! 1;
                ds = drop 2 s;
                base = (if p = CHR ''x'' \<or> p = CHR ''X'' then 16
                        else if p = CHR ''o'' \<or> p = CHR ''O'' then 8
                        else if p = CHR ''b'' \<or> p = CHR ''B'' then 2 else 0)
            in if base \<noteq> 0 \<and> list_all (is_digit_of base) ds
               then Some (Finite (of_nat (nat_of_digits base ds))) else None))"

definition StringToNumber :: "string \<Rightarrow> number" where
  "StringToNumber s =
     (let t = trim s
      in if t = [] then Finite 0
         else (case parse_nondecimal t of
                 Some v \<Rightarrow> v
               | None \<Rightarrow>
                   (case parse_signed_decimal t of
                      Some (v, r) \<Rightarrow> if r = [] then v else NaN
                    | None \<Rightarrow> NaN)))"

text \<open>\<^verbatim>\<open>ToNumber\<close> and \<^verbatim>\<open>ToString\<close> on primitives.\<close>

fun ToNumber :: "jsval \<Rightarrow> number" where
  "ToNumber JUndefined = NaN"
| "ToNumber JNull = Finite 0"
| "ToNumber (JBool b) = Finite (if b then 1 else 0)"
| "ToNumber (JNum x) = x"
| "ToNumber (JStr s) = StringToNumber s"

fun ToString :: "jsval \<Rightarrow> string" where
  "ToString JUndefined = ''undefined''"
| "ToString JNull = ''null''"
| "ToString (JBool b) = (if b then ''true'' else ''false'')"
| "ToString (JNum x) = Number_toString x"
| "ToString (JStr s) = s"

text \<open>The globals \<^verbatim>\<open>isNaN\<close> and \<^verbatim>\<open>parseFloat\<close>: the first converts its argument to a
  number, the second to a string, of which it reads the longest prefix (after leading
  white space) that is a signed decimal literal.\<close>

definition isNaN :: "jsval \<Rightarrow> bool" where
  "isNaN v = num_isNaN (ToNumber v)"

definition parseFloat :: "jsval \<Rightarrow> number" where
  "parseFloat v =
     (case parse_signed_decimal (trim_start (ToString v)) of
        Some (x, r) \<Rightarrow> x
      | None \<Rightarrow> NaN)"

section \<open>The rate calculator: \<^verbatim>\<open>calculatePer1000\<close>\<close>

text \<open>
  The argument \<^verbatim>\<open>data\<close> is whatever the caller passes: a primitive (\<^verbatim>\<open>undefined\<close> and
  \<^verbatim>\<open>null\<close> among them) or an object. Reading a property of \<^verbatim>\<open>undefined\<close> or \<^verbatim>\<open>null\<close>
  throws a TypeError; reading \<^verbatim>\<open>cases\<close>, \<^verbatim>\<open>deaths\<close> or \<^verbatim>\<open>popData2019\<close> of any other
  primitive gives \<^verbatim>\<open>undefined\<close>.
\<close>

datatype error = TypeError | RangeError

datatype argument = Prim jsval | Object obj

fun get_prop :: "argument \<Rightarrow> string \<Rightarrow> error + jsval" where
  "get_prop (Prim JUndefined) k = Inl TypeError"
| "get_prop (Prim JNull) k = Inl TypeError"
| "get_prop (Prim v) k = Inr JUndefined"
| "get_prop (Object ob) k = Inr (obj_get ob k)"

fun truthy_arg :: "argument \<Rightarrow> bool" where
  "truthy_arg (Prim v) = truthy v"
| "truthy_arg (Object ob) = True"

record result =
  numericValue :: number
  displayValue :: string

text \<open>
  The function, statement by statement: \<open>value\<close> is read from \<^verbatim>\<open>data\<close> first (line 10),
  the guard \<^verbatim>\<open>!data || value === 0 || data.popData2019 === null\<close> follows (line 13),
  then the division and the two conditional expressions. The division converts its
  operands to numbers, the two quotients are doubles, and the literal \<^verbatim>\<open>0.0001\<close> is the
  double nearest to \<open>1 / 10000\<close>.
\<close>

definition calculatePer1000 :: "argument \<Rightarrow> bool \<Rightarrow> error + result" where
  "calculatePer1000 data forDeaths =
     (case get_prop data (if forDeaths then ''deaths'' else ''cases'') of
        Inl e \<Rightarrow> Inl e
      | Inr v \<Rightarrow>
          if \<not> truthy_arg data \<or> strict_equals v (JNum (Finite 0))
          then Inr \<lparr>numericValue = Finite 0, displayValue = ''0''\<rparr>
          else (case get_prop data ''popData2019'' of
                  Inl e \<Rightarrow> Inl e
                | Inr p \<Rightarrow>
                    if strict_equals p JNull
                    then Inr \<lparr>numericValue = Finite 0, displayValue = ''0''\<rparr>
                    else (let per1000 = Number_divide (to_double (ToNumber v))
                                          (Number_divide (to_double (ToNumber p)) (Finite 1000))
                          in Inr \<lparr>numericValue =
                                    (if num_isFinite per1000 then per1000
                                     else Finite (nearest (1 / 10000))),
                                  displayValue =
                                    (if num_isFinite per1000
                                     then (if num_lt per1000 (Finite (nearest (1 / 10000)))
                                           then ''<0.0001''
                                           else toFixed 4 per1000)
                                     else ''0'')\<rparr>)))"

text \<open>
  The spec's words for what the display strings are: a number ``formatted with exactly
  \<open>f\<close> digits after the decimal point''. \<open>fixed_point f x\<close> is that string: the sign, the
  digits of the integer part, a point, and exactly \<open>f\<close> fraction digits, of \<open>x\<close> rounded to
  \<open>f\<close> fraction digits (a tie goes up in magnitude). \<open>digitsN f n\<close> is the last \<open>f\<close>
  decimal digits of \<open>n\<close>.
\<close>

primrec digitsN :: "nat \<Rightarrow> nat \<Rightarrow> string" where
  "digitsN 0 n = []"
| "digitsN (Suc f) n = digitsN f (n div 10) @ [digit_char (n mod 10)]"

definition fixed_point :: "nat \<Rightarrow> rat \<Rightarrow> string" where
  "fixed_point f x =
     (let n = nat \<lfloor>\<bar>x\<bar> * 10 ^ f + 1 / 2\<rfloor>
      in (if x < 0 then ''-'' else '''') @ digits (n div 10 ^ f) @ ''.'' @ digitsN f n)"

section \<open>The table sort: \<^verbatim>\<open>sortData\<close>\<close>

text \<open>
  The rows of the table are objects. \<^verbatim>\<open>column\<close> is the state \<^verbatim>\<open>sortedColumn\<close>:
  \<^verbatim>\<open>null\<close> (here \<open>None\<close>) until a header is clicked, then the header's column name;
  \<^verbatim>\<open>a[null]\<close> reads the property named \<^verbatim>\<open>"null"\<close>. \<^verbatim>\<open>direction\<close> is a string.
\<close>

definition column_key :: "string option \<Rightarrow> string" where
  "column_key column = (case column of None \<Rightarrow> ''null'' | Some c \<Rightarrow> c)"

definition numeric_columns :: "string list" where
  "numeric_columns =
     [''totalCases'', ''totalDeaths'', ''casesPer1000'', ''deathsPer1000'',
      ''averageCases'', ''averageDeaths'', ''maxCases'', ''maxDeaths'']"

text \<open>The operator \<^verbatim>\<open>||\<close>.\<close>

definition js_or :: "jsval \<Rightarrow> jsval \<Rightarrow> jsval" where
  "js_or a b = (if truthy a then a else b)"

text \<open>The numeric columns: \<^verbatim>\<open>isNaN(x) ? parseFloat(x) || 0 : +x\<close>.\<close>

definition numeric_value :: "jsval \<Rightarrow> jsval" where
  "numeric_value x =
     (if isNaN x then js_or (JNum (parseFloat x)) (JNum (Finite 0)) else JNum (ToNumber x))"

text \<open>The \<^verbatim>\<open>switch\<close> on the column: what \<^verbatim>\<open>valueA\<close> (or \<^verbatim>\<open>valueB\<close>) is for a row.\<close>

definition sort_value :: "string option \<Rightarrow> obj \<Rightarrow> jsval" where
  "sort_value column a =
     (let x = obj_get a (column_key column)
      in if column = Some ''country'' then js_or x (JStr '''')
         else if column \<in> Some ` set numeric_columns then numeric_value x
         else JStr (ToString (js_or x (JStr ''''))))"

text \<open>
  \<^verbatim>\<open>valueA.localeCompare(valueB)\<close>: only a string has the method, and the call on a number
  or a boolean throws a TypeError; the argument is converted to a string. The comparison
  itself is the collation of the host's locale, which the model takes as a parameter
  \<open>lc\<close>: negative, zero or positive.
\<close>

definition localeCompare_call :: "(string \<Rightarrow> string \<Rightarrow> int) \<Rightarrow> jsval \<Rightarrow> jsval \<Rightarrow> error + number" where
  "localeCompare_call lc valueA valueB =
     (case valueA of
        JStr s \<Rightarrow> Inr (Finite (of_int (lc s (ToString valueB))))
      | _ \<Rightarrow> Inl TypeError)"

text \<open>The comparator passed to \<^verbatim>\<open>sort\<close>.\<close>

definition compare_rows ::
  "(string \<Rightarrow> string \<Rightarrow> int) \<Rightarrow> string option \<Rightarrow> string \<Rightarrow> obj \<Rightarrow> obj \<Rightarrow> error + number" where
  "compare_rows lc column direction a b =
     (let valueA = sort_value column a;
          valueB = sort_value column b
      in case (if isNaN valueA \<or> isNaN valueB then localeCompare_call lc valueA valueB
               else Inr (num_sub (ToNumber valueA) (ToNumber valueB))) of
           Inl e \<Rightarrow> Inl e
         | Inr comparison \<Rightarrow>
             Inr (if direction = ''asc'' then comparison else num_neg comparison))"

text \<open>
  \<^verbatim>\<open>Array.prototype.sort\<close> with a comparator. ECMAScript asks for a stable sort: where
  the comparator is consistent, the result is the one arrangement of the elements in
  which \<open>a\<close> comes before \<open>b\<close> whenever the comparator is negative on \<open>(a, b)\<close>, elements
  on which it is zero (or NaN) keeping their order; where it is not consistent, the order
  is left to the engine. The model sorts by stable insertion, from the right: an element
  goes behind the elements on which the comparator is positive. An exception of the
  comparator ends the sort.
\<close>

fun insort_by :: "('a \<Rightarrow> 'a \<Rightarrow> error + number) \<Rightarrow> 'a \<Rightarrow> 'a list \<Rightarrow> error + 'a list" where
  "insort_by cmp x [] = Inr [x]"
| "insort_by cmp x (y # ys) =
     (case cmp x y of
        Inl e \<Rightarrow> Inl e
      | Inr v \<Rightarrow>
          if num_lt (Finite 0) v
          then (case insort_by cmp x ys of Inl e \<Rightarrow> Inl e | Inr zs \<Rightarrow> Inr (y # zs))
          else Inr (x # y # ys))"

fun js_sort :: "('a \<Rightarrow> 'a \<Rightarrow> error + number) \<Rightarrow> 'a list \<Rightarrow> error + 'a list" where
  "js_sort cmp [] = Inr []"
| "js_sort cmp (x # xs) =
     (case js_sort cmp xs of Inl e \<Rightarrow> Inl e | Inr ys \<Rightarrow> insort_by cmp x ys)"

text \<open>\<^verbatim>\<open>sortData\<close> on the rows as values: the sorted copy it returns.\<close>

definition sortData ::
  "(string \<Rightarrow> string \<Rightarrow> int) \<Rightarrow> obj list \<Rightarrow> string option \<Rightarrow> string \<Rightarrow> error + obj list" where
  "sortData lc data column direction = js_sort (compare_rows lc column direction) data"

text \<open>
  \<^verbatim>\<open>sortData\<close> on the heap. Objects and arrays live at addresses; an array holds the
  addresses of its rows. \<^verbatim>\<open>[...data]\<close> allocates a new array with the same row
  addresses, \<^verbatim>\<open>sort\<close> rearranges that new array in place, reading the rows through
  their addresses, and the new array's address is returned. When the comparator throws,
  the function does not return and the new array is unreachable (the model leaves it as
  copied).
\<close>

record heap =
  objects :: "obj list"
  arrays :: "nat list list"

definition sortData_heap ::
  "(string \<Rightarrow> string \<Rightarrow> int) \<Rightarrow> heap \<Rightarrow> nat \<Rightarrow> string option \<Rightarrow> string \<Rightarrow> heap \<times> (error + nat)" where
  "sortData_heap lc h data column direction =
     (let sortedData = length (arrays h);
          h1 = h\<lparr>arrays := arrays h @ [arrays h ! data]\<rparr>;
          cmp = (\<lambda>a b. compare_rows lc column direction (objects h1 ! a) (objects h1 ! b))
      in case js_sort cmp (arrays h1 ! sortedData) of
           Inl e \<Rightarrow> (h1, Inl e)
         | Inr ys \<Rightarrow> (h1\<lparr>arrays := (arrays h1)[sortedData := ys]\<rparr>, Inr sortedData))"


fun codeunit_compare :: "string \<Rightarrow> string \<Rightarrow> int" where
  "codeunit_compare [] [] = 0"
| "codeunit_compare [] (y # ys) = - 1"
| "codeunit_compare (x # xs) [] = 1"
| "codeunit_compare (x # xs) (y # ys) =
     (if (of_char x :: nat) < of_char y then - 1
      else if (of_char y :: nat) < of_char x then 1
      else codeunit_compare xs ys)"


text \<open>The pure insertion sort that \<open>js_sort\<close> is when the comparator never throws:
  \<open>gt x y\<close> says that \<open>x\<close> goes behind \<open>y\<close>.\<close>

fun insort_gt :: "('a \<Rightarrow> 'a \<Rightarrow> bool) \<Rightarrow> 'a \<Rightarrow> 'a list \<Rightarrow> 'a list" where
  "insort_gt gt x [] = [x]"
| "insort_gt gt x (y # ys) = (if gt x y then y # insort_gt gt x ys else x # y # ys)"

fun isort_gt :: "('a \<Rightarrow> 'a \<Rightarrow> bool) \<Rightarrow> 'a list \<Rightarrow> 'a list" where
  "isort_gt gt [] = []"
| "isort_gt gt (x # xs) = insort_gt gt x (isort_gt gt xs)"


section \<open>Pagination\<close>

text \<open>
  \<^verbatim>\<open>currentPage\<close> and \<^verbatim>\<open>itemsPerPage\<close> are numbers of the component's state.
  \<^verbatim>\<open>Array.prototype.slice(start, end)\<close> converts each bound to an integer (NaN to 0,
  a fraction towards zero), counts a negative bound from the end, and clamps both to the
  array.
\<close>

fun num_mul :: "number \<Rightarrow> number \<Rightarrow> number" where
  "num_mul (Finite a) (Finite b) = Finite (a * b)"
| "num_mul NaN _ = NaN"
| "num_mul _ NaN = NaN"
| "num_mul (Finite a) PosInfinity = (if a = 0 then NaN else if 0 < a then PosInfinity else NegInfinity)"
| "num_mul (Finite a) NegInfinity = (if a = 0 then NaN else if 0 < a then NegInfinity else PosInfinity)"
| "num_mul PosInfinity (Finite b) = (if b = 0 then NaN else if 0 < b then PosInfinity else NegInfinity)"
| "num_mul NegInfinity (Finite b) = (if b = 0 then NaN else if 0 < b then NegInfinity else PosInfinity)"
| "num_mul PosInfinity PosInfinity = PosInfinity"
| "num_mul NegInfinity NegInfinity = PosInfinity"
| "num_mul PosInfinity NegInfinity = NegInfinity"
| "num_mul NegInfinity PosInfinity = NegInfinity"

definition relative_index :: "nat \<Rightarrow> number \<Rightarrow> nat" where
  "relative_index len v =
     (case v of
        NaN \<Rightarrow> 0
      | NegInfinity \<Rightarrow> 0
      | PosInfinity \<Rightarrow> len
      | Finite x \<Rightarrow>
          (let i = (if 0 \<le> x then \<lfloor>x\<rfloor> else \<lceil>x\<rceil>)
           in if i < 0 then nat (max (int len + i) 0) else nat (min i (int len))))"

definition js_slice :: "'a list \<Rightarrow> number \<Rightarrow> number \<Rightarrow> 'a list" where
  "js_slice xs start fin =
     (let len = length xs;
          k = relative_index len start;
          final = relative_index len fin
      in take (final - k) (drop k xs))"

text \<open>\<^verbatim>\<open>Math.ceil(filteredData.length / itemsPerPage)\<close>, and the slice of the table
  body.\<close>

definition totalPages :: "'a list \<Rightarrow> number \<Rightarrow> number" where
  "totalPages filteredData itemsPerPage =
     Math_ceil (num_div (Finite (of_nat (length filteredData))) itemsPerPage)"

definition pageRows :: "'a list \<Rightarrow> number \<Rightarrow> number \<Rightarrow> 'a list" where
  "pageRows sortedFilteredData currentPage itemsPerPage =
     js_slice sortedFilteredData
       (num_mul (num_sub currentPage (Finite 1)) itemsPerPage)
       (num_mul currentPage itemsPerPage)"

text \<open>The spec's words: the slice \<open>[lo, hi)\<close> of the rows is the rows whose index \<open>i\<close> has
  \<open>lo \<le> i < hi\<close>, in their order.\<close>

definition interval_rows :: "'a list \<Rightarrow> int \<Rightarrow> int \<Rightarrow> 'a list" where
  "interval_rows xs lo hi =
     map (\<lambda>i. xs ! i) (filter (\<lambda>i. lo \<le> int i \<and> int i < hi) [0..<length xs])"

section \<open>Dates and the date-range filter\<close>

text \<open>
  A Date is its time value: the milliseconds since the epoch, or NaN for an invalid date.
  \<open>MakeDay\<close> and \<open>DayFromYear\<close> are those of ECMAScript (months count from 0; a day
  past the end of the month runs into the next). Dates here are local midnights; the
  offset of the host's time zone is not modelled.
\<close>

definition DayFromYear :: "int \<Rightarrow> int" where
  "DayFromYear y = 365 * (y - 1970) + (y - 1969) div 4 - (y - 1901) div 100 + (y - 1601) div 400"

definition InLeapYear :: "int \<Rightarrow> bool" where
  "InLeapYear y = ((y mod 4 = 0 \<and> y mod 100 \<noteq> 0) \<or> y mod 400 = 0)"

definition month_start :: "bool \<Rightarrow> int \<Rightarrow> int" where
  "month_start leap m =
     [0, 31, 59, 90, 120, 151, 181, 212, 243, 273, 304, 334] ! nat m
     + (if leap \<and> 2 \<le> m then 1 else 0)"

definition MakeDay :: "int \<Rightarrow> int \<Rightarrow> int \<Rightarrow> int" where
  "MakeDay year month date =
     (let ym = year + month div 12;
          mn = month mod 12
      in DayFromYear ym + month_start (InLeapYear ym) mn + date - 1)"

definition TimeClip :: "number \<Rightarrow> number" where
  "TimeClip t =
     (case t of
        Finite x \<Rightarrow>
          if \<bar>x\<bar> \<le> 8640000000000000 then Finite (of_int (if 0 \<le> x then \<lfloor>x\<rfloor> else \<lceil>x\<rceil>))
          else NaN
      | _ \<Rightarrow> NaN)"

text \<open>\<^verbatim>\<open>String.prototype.split\<close> on a one-character separator.\<close>

fun split_on :: "char \<Rightarrow> string \<Rightarrow> string list" where
  "split_on c [] = [[]]"
| "split_on c (x # xs) =
     (if x = c then [] # split_on c xs
      else (case split_on c xs of p # ps \<Rightarrow> (x # p) # ps | [] \<Rightarrow> [[x]]))"

text \<open>
  \<^verbatim>\<open>new Date(string)\<close>. ECMAScript fixes the ISO format only and leaves every other
  string to the engine. The strings of this program are \<^verbatim>\<open>dateRep\<close> values, three
  numbers separated by slashes, and V8, SpiderMonkey and JavaScriptCore agree on them:
  the first number is the month and the second the day. \<open>Date_parse\<close> is V8's rule for
  this shape: a first number that cannot be a day (not in 1..31) is a year, followed by
  month and day; otherwise the order is month, day, year; a year below 50 is in 2000, one
  below 100 in 1900; the month must be in 1..12 and the day in 1..31, or the date is
  invalid. Strings of another shape are outside the model (it gives NaN for them, which
  says nothing about the engine).
\<close>

definition Date_parse :: "string \<Rightarrow> number" where
  "Date_parse s =
     (case split_on (CHR ''/'') s of
        [a, b, c] \<Rightarrow>
          if list_all (\<lambda>p. p \<noteq> [] \<and> list_all (is_digit_of 10) p) [a, b, c]
          then (let n1 = int (nat_of_digits 10 a);
                    n2 = int (nat_of_digits 10 b);
                    n3 = int (nat_of_digits 10 c);
                    ymd = \<not> (1 \<le> n1 \<and> n1 \<le> 31);
                    y0 = (if ymd then n1 else n3);
                    month = (if ymd then n2 else n1);
                    day = (if ymd then n3 else n2);
                    year = (if 0 \<le> y0 \<and> y0 \<le> 49 then y0 + 2000
                            else if 50 \<le> y0 \<and> y0 \<le> 99 then y0 + 1900 else y0)
                in if 1 \<le> month \<and> month \<le> 12 \<and> 1 \<le> day \<and> day \<le> 31
                   then TimeClip (Finite (of_int (MakeDay year (month - 1) day * 86400000)))
                   else NaN)
          else NaN
      | _ \<Rightarrow> NaN)"

definition Date_new :: "jsval \<Rightarrow> number" where
  "Date_new v = (case v of JStr s \<Rightarrow> Date_parse s | _ \<Rightarrow> TimeClip (ToNumber v))"

text \<open>The operator \<^verbatim>\<open><=\<close> on numbers (\<^verbatim>\<open>a >= b\<close> is \<^verbatim>\<open>b <= a\<close>).\<close>

definition num_le :: "number \<Rightarrow> number \<Rightarrow> bool" where
  "num_le a b = (num_lt a b \<or> (\<not> num_isNaN a \<and> a = b))"

text \<open>
  The date clause of the filter (\<^verbatim>\<open>isDateValid\<close> in \<^verbatim>\<open>filteredData\<close>): the row's
  \<^verbatim>\<open>date\<close>, which is the record's \<^verbatim>\<open>dateRep\<close> as it came, goes to \<^verbatim>\<open>new Date\<close>.
  \<^verbatim>\<open>startDate\<close> and \<^verbatim>\<open>endDate\<close> are \<^verbatim>\<open>null\<close> (\<open>None\<close>) or a Date.
\<close>

definition isDateValid :: "obj \<Rightarrow> number option \<Rightarrow> number option \<Rightarrow> bool" where
  "isDateValid entry startDate endDate =
     (let entryDate = Date_new (obj_get entry ''date'')
      in \<not> num_isNaN entryDate
         \<and> (case startDate of None \<Rightarrow> True | Some sd \<Rightarrow> num_isNaN sd \<or> num_le sd entryDate)
         \<and> (case endDate of None \<Rightarrow> True | Some ed \<Rightarrow> num_isNaN ed \<or> num_le entryDate ed))"

text \<open>
  The other place where the program makes a Date of a \<^verbatim>\<open>dateRep\<close>, for the bounds of
  the date pickers (\<^verbatim>\<open>fetchData\<close>, the array \<^verbatim>\<open>dates\<close>): it splits the string into day,
  month and year and hands \<^verbatim>\<open>new Date\<close> the string \<^verbatim>\<open>month/day/year\<close>. A part that
  is missing prints as \<^verbatim>\<open>undefined\<close>.
\<close>

definition record_date :: "string \<Rightarrow> number" where
  "record_date dateRep =
     (let parts = split_on (CHR ''/'') dateRep;
          part = (\<lambda>i. if i < length parts then parts ! i else ''undefined'');
          day = part 0;
          month = part 1;
          year = part 2
      in Date_new (JStr (month @ ''/'' @ day @ ''/'' @ year)))"

section \<open>Loading the data: the aggregation in \<^verbatim>\<open>fetchData\<close>\<close>

text \<open>
  The row of the table that \<^verbatim>\<open>fetchData\<close> makes of a record (the object \<^verbatim>\<open>newData\<close>).
  The two totals hold what \<^verbatim>\<open>totalCases[data.country]\<close> gives, which is a primitive, or
  something inherited from \<^verbatim>\<open>Object.prototype\<close> (see \<open>dict_get\<close> below).
\<close>

datatype 'a property = Own 'a | Inherited_function string | Inherited_prototype | Undefined

record row =
  country :: string
  cases :: number
  deaths :: number
  casesPer1000 :: string
  deathsPer1000 :: string
  date :: string
  totalCases :: "jsval property"
  totalDeaths :: "jsval property"
  averageCases :: jsval
  averageDeaths :: jsval
  maxCases :: jsval
  maxDeaths :: jsval

text \<open>
  A record of the response, with the types of its JSON schema: two strings, two integer
  counts, and a population that is a number or \<^verbatim>\<open>null\<close>. The fields hold what the JSON
  text says; the program sees the doubles that the JSON parser makes of the numbers
  (\<open>count\<close>). \<open>record_obj\<close> is the record as the object that \<^verbatim>\<open>calculatePer1000\<close> is
  given.
\<close>

record raw_record =
  countriesAndTerritories :: string
  dateRep :: string
  cases :: int
  deaths :: int
  popData2019 :: "rat option"

definition count :: "int \<Rightarrow> number" where
  "count n = Number_value (of_int n)"

definition record_obj :: "raw_record \<Rightarrow> obj" where
  "record_obj r =
     [(''countriesAndTerritories'', JStr (countriesAndTerritories r)),
      (''dateRep'', JStr (dateRep r)),
      (''cases'', JNum (count (cases r))),
      (''deaths'', JNum (count (deaths r))),
      (''popData2019'', (case popData2019 r of None \<Rightarrow> JNull | Some p \<Rightarrow> JNum (Number_value p)))]"

text \<open>
  The objects \<^verbatim>\<open>totalCases\<close>, \<^verbatim>\<open>totalDeaths\<close> and \<^verbatim>\<open>dailyData\<close> are created as \<^verbatim>\<open>{}\<close>
  and used as dictionaries: they inherit from \<^verbatim>\<open>Object.prototype\<close>. Reading a name that
  is no own property gives the inherited value: a built-in function for eleven names, the
  prototype object for \<^verbatim>\<open>__proto__\<close> (an accessor), and \<^verbatim>\<open>undefined\<close> for every other
  name. Assigning a primitive to \<^verbatim>\<open>__proto__\<close> calls the accessor, which ignores it;
  assigning to any other name creates or updates the own property. A dictionary is the map
  of its own properties.
\<close>

definition Object_prototype_functions :: "string list" where
  "Object_prototype_functions =
     [''constructor'', ''__defineGetter__'', ''__defineSetter__'', ''hasOwnProperty'',
      ''__lookupGetter__'', ''__lookupSetter__'', ''isPrototypeOf'', ''propertyIsEnumerable'',
      ''toString'', ''valueOf'', ''toLocaleString'']"

definition Object_prototype_names :: "string list" where
  "Object_prototype_names = ''__proto__'' # Object_prototype_functions"

definition dict_get :: "(string \<Rightarrow> 'a option) \<Rightarrow> string \<Rightarrow> 'a property" where
  "dict_get d k =
     (case d k of
        Some v \<Rightarrow> Own v
      | None \<Rightarrow>
          if k = ''__proto__'' then Inherited_prototype
          else if k \<in> set Object_prototype_functions then Inherited_function k
          else Undefined)"

definition dict_set :: "(string \<Rightarrow> 'a option) \<Rightarrow> string \<Rightarrow> 'a \<Rightarrow> (string \<Rightarrow> 'a option)" where
  "dict_set d k v = (if k = ''__proto__'' then d else d(k \<mapsto> v))"

text \<open>
  The operator \<^verbatim>\<open>+\<close> on primitives: a concatenation as soon as one side is a string, the
  sum of the two numbers otherwise. A built-in function as the left operand is converted
  to its source text, which is engine-defined: \<open>function_text\<close> is what V8 prints
  (\<^verbatim>\<open>constructor\<close> is the function \<^verbatim>\<open>Object\<close>); the prototype object is converted to
  \<^verbatim>\<open>[object Object]\<close>.
\<close>

definition js_plus :: "jsval \<Rightarrow> jsval \<Rightarrow> jsval" where
  "js_plus a b =
     (case a of
        JStr s \<Rightarrow> JStr (s @ ToString b)
      | _ \<Rightarrow> (case b of
                JStr t \<Rightarrow> JStr (ToString a @ t)
              | _ \<Rightarrow> JNum (Number_add (ToNumber a) (ToNumber b))))"

definition function_text :: "string \<Rightarrow> string" where
  "function_text f =
     ''function '' @ (if f = ''constructor'' then ''Object'' else f) @ ''() { [native code] }''"

text \<open>
  \<^verbatim>\<open>if (totalCases[country]) totalCases[country] += cases; else totalCases[country] =
  cases\<close>. The test is for a truthy value: a total that is 0 is overwritten, and an
  inherited function or the prototype object is added to.
\<close>

type_synonym totals = "string \<Rightarrow> jsval option"

definition add_total :: "totals \<Rightarrow> string \<Rightarrow> number \<Rightarrow> totals" where
  "add_total t c n =
     (case dict_get t c of
        Own v \<Rightarrow> if truthy v then dict_set t c (js_plus v (JNum n)) else dict_set t c (JNum n)
      | Inherited_function f \<Rightarrow> dict_set t c (js_plus (JStr (function_text f)) (JNum n))
      | Inherited_prototype \<Rightarrow> dict_set t c (js_plus (JStr ''[object Object]'') (JNum n))
      | Undefined \<Rightarrow> dict_set t c (JNum n))"

text \<open>The row \<^verbatim>\<open>newData\<close> pushed for a record.\<close>

definition newData :: "raw_record \<Rightarrow> string \<Rightarrow> string \<Rightarrow> row" where
  "newData record c d =
     \<lparr>country = countriesAndTerritories record,
      row.cases = count (cases record),
      row.deaths = count (deaths record),
      casesPer1000 = c,
      deathsPer1000 = d,
      date = dateRep record,
      totalCases = Own (JNum (Finite 0)),
      totalDeaths = Own (JNum (Finite 0)),
      averageCases = JNum (Finite 0),
      averageDeaths = JNum (Finite 0),
      maxCases = JNum (Finite 0),
      maxDeaths = JNum (Finite 0)\<rparr>"

text \<open>
  The body of the first \<^verbatim>\<open>records.forEach\<close>, on the two dictionaries and the array
  \<^verbatim>\<open>allData\<close> (the state of the component, empty when the data is loaded), and the loop
  itself: an exception ends it.
\<close>

definition process_record ::
  "raw_record \<Rightarrow> totals \<times> totals \<times> row list \<Rightarrow> error + totals \<times> totals \<times> row list" where
  "process_record record st =
     (case st of
        (tc, td, rows) \<Rightarrow>
          (case calculatePer1000 (Object (record_obj record)) False of
             Inl e \<Rightarrow> Inl e
           | Inr c \<Rightarrow>
               (case calculatePer1000 (Object (record_obj record)) True of
                  Inl e \<Rightarrow> Inl e
                | Inr d \<Rightarrow>
                    Inr (add_total tc (countriesAndTerritories record) (count (cases record)),
                         add_total td (countriesAndTerritories record) (count (deaths record)),
                         rows @ [newData record (toFixed 5 (numericValue c))
                                                (toFixed 5 (numericValue d))]))))"

fun for_each :: "('a \<Rightarrow> 's \<Rightarrow> error + 's) \<Rightarrow> 'a list \<Rightarrow> 's \<Rightarrow> error + 's" where
  "for_each f [] s = Inr s"
| "for_each f (x # xs) s = (case f x s of Inl e \<Rightarrow> Inl e | Inr s' \<Rightarrow> for_each f xs s')"

text \<open>The back-fill of the totals: \<^verbatim>\<open>data.totalCases = totalCases[data.country]\<close>.\<close>

definition backfill_totals :: "totals \<Rightarrow> totals \<Rightarrow> row \<Rightarrow> row" where
  "backfill_totals tc td data =
     data\<lparr>totalCases := dict_get tc (country data), totalDeaths := dict_get td (country data)\<rparr>"

text \<open>
  \<^verbatim>\<open>Math.min\<close> and \<^verbatim>\<open>Math.max\<close> of the elements of an array: NaN as soon as one element
  is, an infinity for the empty array.
\<close>

definition Math_min :: "number list \<Rightarrow> number" where
  "Math_min xs =
     (if list_ex num_isNaN xs then NaN
      else foldl (\<lambda>m x. if num_lt x m then x else m) PosInfinity xs)"

definition Math_max :: "number list \<Rightarrow> number" where
  "Math_max xs =
     (if list_ex num_isNaN xs then NaN
      else foldl (\<lambda>m x. if num_lt m x then x else m) NegInfinity xs)"

text \<open>
  The dictionary \<^verbatim>\<open>dailyData\<close>, from date string to the two arrays of that date's
  counts: the list of its own properties, in insertion order. For a date that is the name
  of a property of \<^verbatim>\<open>Object.prototype\<close> the test \<^verbatim>\<open>if (dailyData[date])\<close> finds the
  inherited value, which has no \<^verbatim>\<open>dailyCases\<close>, and \<^verbatim>\<open>push\<close> is called on
  \<^verbatim>\<open>undefined\<close>: a TypeError.
\<close>

type_synonym daily = "(string \<times> number list \<times> number list) list"

definition daily_add :: "raw_record \<Rightarrow> daily \<Rightarrow> error + daily" where
  "daily_add record dailyData =
     (case dict_get (map_of dailyData) (dateRep record) of
        Own entry \<Rightarrow>
          Inr (map (\<lambda>(k, cs, ds). if k = dateRep record
                                    then (k, cs @ [count (cases record)], ds @ [count (deaths record)])
                                    else (k, cs, ds)) dailyData)
      | Undefined \<Rightarrow>
          Inr (dailyData @ [(dateRep record, [count (cases record)], [count (deaths record)])])
      | _ \<Rightarrow> Inl TypeError)"

text \<open>
  \<^verbatim>\<open>(array.reduce((sum, x) => sum + x, 0) / array.length).toFixed(4)\<close> and
  \<^verbatim>\<open>Math.max(...array).toFixed(4)\<close>.
\<close>

definition average4 :: "number list \<Rightarrow> string" where
  "average4 xs =
     toFixed 4 (Number_divide (foldl Number_add (Finite 0) xs) (Finite (of_nat (length xs))))"

definition max4 :: "number list \<Rightarrow> string" where
  "max4 xs = toFixed 4 (Math_max xs)"

text \<open>
  The body of \<^verbatim>\<open>Object.keys(dailyData).forEach\<close> for one date: the four strings are
  computed and written into every row of \<^verbatim>\<open>allData\<close> whose \<^verbatim>\<open>date\<close> is that date.
  (\<^verbatim>\<open>Object.keys\<close> lists the keys that are array indices first; the body for a date
  changes the rows of that date only, so that the order of the dates does not show in the
  result.)
\<close>

definition daily_row :: "string \<times> number list \<times> number list \<Rightarrow> row \<Rightarrow> row" where
  "daily_row entry data =
     (case entry of
        (d, casesArray, deathsArray) \<Rightarrow>
          if date data = d
          then data\<lparr>averageCases := JStr (average4 casesArray),
                    averageDeaths := JStr (average4 deathsArray),
                    maxCases := JStr (max4 casesArray),
                    maxDeaths := JStr (max4 deathsArray)\<rparr>
          else data)"

definition backfill_daily :: "string \<times> number list \<times> number list \<Rightarrow> row list \<Rightarrow> row list" where
  "backfill_daily entry rows = map (daily_row entry) rows"

text \<open>
  \<^verbatim>\<open>fetchData\<close> from the records of the response to the state it sets: the rows
  \<^verbatim>\<open>allData\<close> and the four dates (time values) of the date pickers, which are the
  earliest and the latest of the record dates. \<^verbatim>\<open>Math.min(...dates)\<close> passes every
  record date as an argument of one call, and an engine accepts only so many arguments
  (some 65000 to some 100000 and more, by the engine and its stack): \<open>max_arguments\<close> is
  that number, and a call with more throws a RangeError. The arrays of one date are no
  longer than \<^verbatim>\<open>dates\<close>, so that \<^verbatim>\<open>Math.max(...casesArray)\<close> is within the limit
  when \<^verbatim>\<open>Math.min(...dates)\<close> was. (\<^verbatim>\<open>aggregateDataByDate\<close>, called between the first
  loop and the back-fill of the totals, reads the records, computes the series of the
  chart and does not throw.) When a statement throws, the handler logs the error and the
  state is not set.
\<close>

record fetched =
  allData :: "row list"
  minDate :: number
  maxDate :: number
  startDate :: number
  endDate :: number

definition fetchData :: "nat \<Rightarrow> raw_record list \<Rightarrow> error + fetched" where
  "fetchData max_arguments records =
     (case for_each process_record records (Map.empty, Map.empty, []) of
        Inl e \<Rightarrow> Inl e
      | Inr (tc, td, rows) \<Rightarrow>
          (let rows1 = map (backfill_totals tc td) rows;
               dates = map (\<lambda>record. record_date (dateRep record)) records
           in if max_arguments < length dates then Inl RangeError
              else (case for_each daily_add records [] of
                      Inl e \<Rightarrow> Inl e
                    | Inr dailyData \<Rightarrow>
                        Inr \<lparr>allData = foldl (\<lambda>rows2 entry. backfill_daily entry rows2) rows1 dailyData,
                             minDate = TimeClip (Math_min dates),
                             maxDate = TimeClip (Math_max dates),
                             startDate = TimeClip (Math_min dates),
                             endDate = TimeClip (Math_max dates)\<rparr>)))"

text \<open>
  The spec's words for the aggregates: the records of a country and of a date, the
  arithmetic mean and the maximum of a list of counts, and the sum of their magnitudes,
  which bounds every partial sum.
\<close>

definition date_group :: "raw_record list \<Rightarrow> string \<Rightarrow> raw_record list" where
  "date_group records d = filter (\<lambda>r. dateRep r = d) records"


definition mean :: "int list \<Rightarrow> rat" where
  "mean xs = of_int (sum_list xs) / of_nat (length xs)"

definition maximum :: "int list \<Rightarrow> rat" where
  "maximum xs = of_int (Max (set xs))"

definition magnitude :: "int list \<Rightarrow> int" where
  "magnitude xs = sum_list (map abs xs)"

text \<open>
  Names for what the loops hold: the rate string of a record
  (\<^verbatim>\<open>calculatePer1000(record, forDeaths).numericValue.toFixed(5)\<close>), the row pushed for a
  record, the step of the daily dictionary when the date is an ordinary name, and the
  entry of a date in the dictionary (two empty arrays when the date is no key).
\<close>

definition rate5 :: "raw_record \<Rightarrow> bool \<Rightarrow> string" where
  "rate5 record forDeaths =
     (case calculatePer1000 (Object (record_obj record)) forDeaths of
        Inr c \<Rightarrow> toFixed 5 (numericValue c) | Inl e \<Rightarrow> [])"

definition row_of :: "raw_record \<Rightarrow> row" where
  "row_of record = newData record (rate5 record False) (rate5 record True)"

definition daily_put :: "daily \<Rightarrow> raw_record \<Rightarrow> daily" where
  "daily_put dailyData record =
     (if dateRep record \<in> fst ` set dailyData
      then map (\<lambda>(k, cs, ds). if k = dateRep record
                                then (k, cs @ [count (cases record)], ds @ [count (deaths record)])
                                else (k, cs, ds)) dailyData
      else dailyData @ [(dateRep record, [count (cases record)], [count (deaths record)])])"

definition daily_entry :: "daily \<Rightarrow> string \<Rightarrow> number list \<times> number list" where
  "daily_entry D d = (case map_of D d of Some p \<Rightarrow> p | None \<Rightarrow> ([], []))"

section \<open>Properties of the number formatting\<close>

lemma floor_rat_numeral [simp]:
  "\<lfloor>numeral a / numeral b :: rat\<rfloor> = numeral a div numeral b"
  by (metis floor_divide_of_int_eq of_int_numeral)

lemma length_digitsN [simp]: "length (digitsN f n) = f"
  by (induction f arbitrary: n) auto

lemma digitsN_zero: "digitsN f 0 = replicate f (CHR ''0'')"
  by (induction f) (auto simp: digit_char_def replicate_append_same)

lemma length_digits_pos: "0 < length (digits n)"
  by (induction n rule: digits.induct) (subst digits.simps, simp)

text \<open>Padding the digits of \<open>n\<close> to \<open>f + 1\<close> characters splits them into the digits of
  \<open>n div 10 ^ f\<close> and the last \<open>f\<close> digits of \<open>n\<close>.\<close>

lemma digits_pad_split:
  "replicate (f + 1 - length (digits n)) (CHR ''0'') @ digits n
     = digits (n div 10 ^ f) @ digitsN f n"
proof (induction f arbitrary: n)
  case 0
  have "0 < length (digits n)" by (rule length_digits_pos)
  then show ?case by (simp add: Suc_le_eq)
next
  case (Suc f)
  show ?case
  proof (cases "n < 10")
    case True
    then have d: "digits n = [digit_char n]" by (subst digits.simps) simp
    have "(10::nat) ^ 1 \<le> 10 ^ Suc f" by (rule power_increasing) simp_all
    then have "(10::nat) \<le> 10 ^ Suc f" by (simp only: power_one_right)
    with True have "n < 10 ^ Suc f" by (rule less_le_trans)
    with True have z: "n div (10 * 10 ^ f) = 0" "n div 10 = 0" by simp_all
    have d0: "digits 0 = [CHR ''0'']" by (subst digits.simps) (simp add: digit_char_def)
    show ?thesis using True
      by (simp add: d z d0 digitsN_zero replicate_append_same digit_char_def)
  next
    case False
    then have d: "digits n = digits (n div 10) @ [digit_char (n mod 10)]"
      by (subst digits.simps) simp
    have "replicate (Suc f + 1 - length (digits n)) (CHR ''0'') @ digits n
          = (replicate (f + 1 - length (digits (n div 10))) (CHR ''0'') @ digits (n div 10))
            @ [digit_char (n mod 10)]"
      by (simp add: d)
    also have "\<dots> = (digits (n div 10 div 10 ^ f) @ digitsN f (n div 10)) @ [digit_char (n mod 10)]"
      by (simp only: Suc.IH)
    also have "\<dots> = digits (n div 10 ^ Suc f) @ digitsN (Suc f) n"
      by (simp add: div_mult2_eq)
    finally show ?thesis .
  qed
qed

text \<open>Below \<open>10 ^ 21\<close> in magnitude, \<^verbatim>\<open>toFixed(f)\<close> with \<open>f > 0\<close> is the fixed-point
  string of the spec.\<close>

lemma toFixed_fixed_point:
  assumes "f \<noteq> 0" "\<bar>x\<bar> < 10 ^ 21"
  shows "toFixed f (Finite x) = fixed_point f x"
proof -
  define n where "n = nat \<lfloor>\<bar>x\<bar> * 10 ^ f + 1 / 2\<rfloor>"
  define m' where "m' = replicate (f + 1 - length (digits n)) (CHR ''0'') @ digits n"
  have m': "m' = digits (n div 10 ^ f) @ digitsN f n"
    unfolding m'_def by (rule digits_pad_split)
  have "take (length m' - f) m' @ ''.'' @ drop (length m' - f) m'
        = digits (n div 10 ^ f) @ ''.'' @ digitsN f n"
    by (simp add: m')
  then show ?thesis
    using assms by (simp add: toFixed_def fixed_point_def Let_def n_def m'_def)
qed

text \<open>Rewrite rules that evaluate the digit functions on numerals.\<close>

lemma digits_numeral:
  "digits (numeral k) = (if (numeral k :: nat) < 10 then [digit_char (numeral k)]
     else digits (numeral k div 10) @ [digit_char (numeral k mod 10)])"
  by (rule digits.simps)

lemma digits_0: "digits 0 = ''0''"
  by (subst digits.simps) (simp add: digit_char_def)

lemma digits_1: "digits (Suc 0) = ''1''"
  by (subst digits.simps) (simp add: digit_char_def)

lemmas digits_eval = digits_numeral digits_0 digits_1 digits_1 [folded One_nat_def]

lemma digitsN_numeral:
  "digitsN (numeral k) n = digitsN (pred_numeral k) (n div 10) @ [digit_char (n mod 10)]"
  by (subst numeral_eq_Suc [of k]) (rule digitsN.simps)

section \<open>Properties of the doubles\<close>

text \<open>Rewrite rules that evaluate the rounding and the printing on numerals.\<close>

lemma ilog2_numeral:
  "ilog2 (numeral k) a =
     (if 2 \<le> a then ilog2 (pred_numeral k) (a / 2) + 1
      else if a < 1 then ilog2 (pred_numeral k) (a * 2) - 1
      else 0)"
  by (subst numeral_eq_Suc [of k]) (rule ilog2.simps)

lemma ilog10_numeral:
  "ilog10 (numeral k) a =
     (if 10 \<le> a then ilog10 (pred_numeral k) (a / 10) + 1
      else if a < 1 then ilog10 (pred_numeral k) (a * 10) - 1
      else 0)"
  by (subst numeral_eq_Suc [of k]) (rule ilog10.simps)

lemma shortest_numeral:
  "shortest (numeral k) x ex =
     (case pick x (pow10 ex) \<lfloor>x / pow10 ex\<rfloor> of
        Some s \<Rightarrow> (s, ex)
      | None \<Rightarrow> shortest (pred_numeral k) x (ex - 1))"
  by (subst numeral_eq_Suc [of k]) (rule shortest.simps)

lemma replicate_numeral_eval: "replicate (numeral k) x = x # replicate (pred_numeral k) x"
  by (subst numeral_eq_Suc [of k]) (rule replicate.simps)

lemmas double_defs = nearest_def Number_value_def ilog2_numeral quantum_def round_to_def pow2_def
  round_half_even_def Number_divide_def Number_add_def Let_def

lemmas toString_defs = pos_toString_def shortest_numeral ilog10_numeral pick_def reads_back_def
  pow10_def strip_zeros_def digits_eval digit_char_def

lemmas number_defs = replicate_numeral_eval toFixed_def fixed_point_def digitsN_numeral digits_eval
  digit_char_def Let_def

text \<open>The powers of two.\<close>

lemma pow2_pos: "0 < pow2 e"
  by (simp add: pow2_def)

lemma pow2_nat: "pow2 (int k) = 2 ^ k"
  by (simp add: pow2_def)

lemma pow2_mono:
  assumes "d \<le> e"
  shows "pow2 d \<le> pow2 e"
proof -
  have neg: "pow2 i \<le> 1" if "i \<le> 0" for i
    using that by (simp add: pow2_def)
  have pos: "1 \<le> pow2 i" if "0 \<le> i" for i
    using that by (simp add: pow2_def)
  show ?thesis
  proof (cases "0 \<le> d")
    case True
    with assms have "nat d \<le> nat e" by simp
    then have "(2::rat) ^ nat d \<le> 2 ^ nat e" by (intro power_increasing) simp_all
    with True assms show ?thesis by (simp add: pow2_def)
  next
    case d: False
    show ?thesis
    proof (cases "0 \<le> e")
      case True
      have "pow2 d \<le> 1" using d by (intro neg) simp
      also have "1 \<le> pow2 e" using True by (rule pos)
      finally show ?thesis .
    next
      case False
      with assms have "nat (- e) \<le> nat (- d)" by simp
      then have "(2::rat) ^ nat (- e) \<le> 2 ^ nat (- d)" by (intro power_increasing) simp_all
      then have "1 / (2::rat) ^ nat (- d) \<le> 1 / 2 ^ nat (- e)"
        by (intro divide_left_mono) simp_all
      with d False show ?thesis by (simp add: pow2_def)
    qed
  qed
qed

text \<open>The binary exponent found by \<open>ilog2\<close>.\<close>

lemma ilog2_up:
  assumes "1 \<le> a" "a < 2 ^ fuel"
  shows "\<exists>k. ilog2 fuel a = int k \<and> 2 ^ k \<le> a \<and> a < 2 * 2 ^ k"
  using assms
proof (induction fuel arbitrary: a)
  case 0
  then show ?case by simp
next
  case (Suc fuel)
  show ?case
  proof (cases "2 \<le> a")
    case True
    with Suc.prems have "1 \<le> a / 2" "a / 2 < 2 ^ fuel" by simp_all
    from Suc.IH [OF this] obtain k where k: "ilog2 fuel (a / 2) = int k" "2 ^ k \<le> a / 2"
      "a / 2 < 2 * 2 ^ k" by blast
    from True k have "ilog2 (Suc fuel) a = int (Suc k)" by simp
    moreover from k have "2 ^ Suc k \<le> a" "a < 2 * 2 ^ Suc k" by simp_all
    ultimately show ?thesis by blast
  next
    case False
    with Suc.prems have "ilog2 (Suc fuel) a = int 0" "2 ^ 0 \<le> a" "a < 2 * 2 ^ 0" by simp_all
    then show ?thesis by blast
  qed
qed

lemma ilog2_upper:
  assumes "a < 2 * 2 ^ k"
  shows "ilog2 fuel a \<le> int k"
  using assms
proof (induction fuel arbitrary: a k)
  case 0
  then show ?case by simp
next
  case (Suc fuel)
  show ?case
  proof (cases "2 \<le> a")
    case True
    with Suc.prems have "k \<noteq> 0" by (cases k) auto
    then obtain j where j: "k = Suc j" by (cases k) auto
    with Suc.prems have "a / 2 < 2 * 2 ^ j" by simp
    then have "ilog2 fuel (a / 2) \<le> int j" by (rule Suc.IH)
    with True j show ?thesis by simp
  next
    case False
    show ?thesis
    proof (cases "a < 1")
      case True
      then have "a * 2 < 2 * 2 ^ 0" by simp
      then have "ilog2 fuel (a * 2) \<le> int 0" by (rule Suc.IH)
      with True False show ?thesis by simp
    next
      case ge: False
      with False show ?thesis by simp
    qed
  qed
qed

text \<open>Rounding leaves an integer alone, and moves a number by less than one quantum.\<close>

lemma round_half_even_of_int [simp]: "round_half_even (of_int m) = m"
  by (simp add: round_half_even_def)

lemma round_half_even_bounds:
  assumes "0 \<le> y"
  shows "0 \<le> round_half_even y" and "of_int (round_half_even y) \<le> y + 1"
proof -
  from assms have f: "0 \<le> \<lfloor>y\<rfloor>" by simp
  have "of_int \<lfloor>y\<rfloor> \<le> y" by simp
  then have up: "of_int (\<lfloor>y\<rfloor> + 1) \<le> y + 1" by simp
  have "round_half_even y = \<lfloor>y\<rfloor> \<or> round_half_even y = \<lfloor>y\<rfloor> + 1"
    by (simp add: round_half_even_def Let_def)
  then show "0 \<le> round_half_even y" using f by auto
  from \<open>round_half_even y = \<lfloor>y\<rfloor> \<or> round_half_even y = \<lfloor>y\<rfloor> + 1\<close>
  show "of_int (round_half_even y) \<le> y + 1"
  proof
    assume "round_half_even y = \<lfloor>y\<rfloor>"
    then have "of_int (round_half_even y) \<le> y" by simp
    then show ?thesis by simp
  next
    assume "round_half_even y = \<lfloor>y\<rfloor> + 1"
    with up show ?thesis by simp
  qed
qed

lemma round_to_exact:
  assumes "0 < q" "\<bar>x\<bar> / q = of_int m"
  shows "round_to q x = x"
proof -
  from assms have "of_int m * q = \<bar>x\<bar>" by (simp add: field_simps)
  then have "round_to q x = sgn x * \<bar>x\<bar>" by (simp add: round_to_def assms(2))
  then show ?thesis by (simp add: mult_sgn_abs)
qed

text \<open>An integer of magnitude up to \<open>2 ^ 53\<close> is a double.\<close>

lemma nearest_of_int:
  assumes "\<bar>n\<bar> \<le> 2 ^ 53"
  shows "nearest (of_int n) = of_int n"
proof (cases "n = 0")
  case True
  then show ?thesis by (simp add: nearest_def)
next
  case False
  define a :: rat where "a = \<bar>of_int n\<bar>"
  have a_int: "a = of_int \<bar>n\<bar>" by (simp add: a_def)
  from False have "1 \<le> \<bar>n\<bar>" by simp
  then have a1: "1 \<le> a" unfolding a_int by (metis of_int_1 of_int_le_iff)
  from assms have a53: "a \<le> 2 ^ 53" unfolding a_int
    by (metis of_int_le_iff of_int_numeral of_int_power)
  have "(2::rat) ^ 53 < 2 ^ 1100" by (rule power_strict_increasing) simp_all
  with a53 have "a < 2 ^ 1100" by simp
  from ilog2_up [OF a1 this] obtain k where k: "ilog2 1100 a = int k" "2 ^ k \<le> a" "a < 2 * 2 ^ k"
    by blast
  have le: "(2::rat) ^ k \<le> 2 ^ 53" using k(2) a53 by (rule order_trans)
  have k53: "k \<le> 53" by (rule power_le_imp_le_exp [OF _ le]) simp
  have q: "quantum (int k) = pow2 (int k - 52)" by (simp add: quantum_def)
  have "\<exists>m. a / quantum (int k) = of_int m"
  proof (cases "k \<le> 52")
    case True
    then have "pow2 (int k - 52) = 1 / 2 ^ (52 - k)"
      by (cases "k = 52") (simp_all add: pow2_def nat_diff_distrib')
    then have "a / quantum (int k) = of_int (\<bar>n\<bar> * 2 ^ (52 - k))"
      by (simp add: q a_int)
    then show ?thesis by blast
  next
    case False
    with k53 have k_eq: "k = 53" by simp
    with k(2) a53 have "a = 2 ^ 53" by simp
    moreover have "pow2 (int k - 52) = 2" by (simp add: k_eq pow2_def)
    ultimately have "a / quantum (int k) = of_int (2 ^ 52)" by (simp add: q)
    then show ?thesis by blast
  qed
  then obtain m where m: "\<bar>rat_of_int n\<bar> / quantum (int k) = of_int m" unfolding a_def by blast
  have "0 < quantum (int k)" by (simp add: quantum_def pow2_pos)
  then have "round_to (quantum (int k)) (of_int n) = of_int n"
    using m by (rule round_to_exact)
  with False k(1) show ?thesis by (simp add: nearest_def a_def)
qed

lemma Number_value_of_int:
  assumes "\<bar>n\<bar> \<le> 2 ^ 53"
  shows "Number_value (of_int n) = Finite (of_int n)"
proof -
  have "\<bar>rat_of_int n\<bar> = of_int \<bar>n\<bar>" by simp
  also have "\<dots> \<le> 2 ^ 53" using assms by (metis of_int_le_iff of_int_numeral of_int_power)
  also have "(2::rat) ^ 53 < 2 ^ 1024" by (rule power_strict_increasing) simp_all
  finally have "\<not> 2 ^ 1024 \<le> \<bar>rat_of_int n\<bar>" by simp
  then show ?thesis by (simp add: Number_value_def nearest_of_int [OF assms])
qed

text \<open>A number of magnitude up to \<open>2 ^ 53\<close> is rounded to one of magnitude up to
  \<open>2 ^ 53 + 2\<close>.\<close>

lemma nearest_bound:
  assumes "\<bar>x\<bar> \<le> 2 ^ 53"
  shows "\<bar>nearest x\<bar> \<le> 2 ^ 53 + 2"
proof (cases "x = 0")
  case True
  then show ?thesis by (simp add: nearest_def)
next
  case False
  define q where "q = quantum (ilog2 1100 \<bar>x\<bar>)"
  have "\<bar>x\<bar> < 2 * 2 ^ 53" using assms by simp
  then have "ilog2 1100 \<bar>x\<bar> \<le> int 53" by (rule ilog2_upper)
  then have "max (ilog2 1100 \<bar>x\<bar>) (- 1022) - 52 \<le> 1" by simp
  then have "q \<le> pow2 1" unfolding q_def quantum_def by (rule pow2_mono)
  then have q2: "q \<le> 2" by (simp add: pow2_def)
  have q0: "0 < q" by (simp add: q_def quantum_def pow2_pos)
  then have y0: "0 \<le> \<bar>x\<bar> / q" by simp
  have "of_int (round_half_even (\<bar>x\<bar> / q)) * q \<le> (\<bar>x\<bar> / q + 1) * q"
    using round_half_even_bounds(2) [OF y0] q0 by (intro mult_right_mono) simp_all
  also have "\<dots> = \<bar>x\<bar> + q" using q0 by (simp add: field_simps)
  also have "\<dots> \<le> 2 ^ 53 + 2" using assms q2 by simp
  finally have up: "of_int (round_half_even (\<bar>x\<bar> / q)) * q \<le> 2 ^ 53 + 2" .
  have nonneg: "0 \<le> of_int (round_half_even (\<bar>x\<bar> / q)) * q"
    using round_half_even_bounds(1) [OF y0] q0 by simp
  have "\<bar>nearest x\<bar> = \<bar>sgn x\<bar> * \<bar>of_int (round_half_even (\<bar>x\<bar> / q)) * q\<bar>"
    using False by (simp add: nearest_def round_to_def q_def abs_mult)
  also have "\<dots> = of_int (round_half_even (\<bar>x\<bar> / q)) * q"
    using False nonneg by (simp add: abs_sgn_eq)
  finally show ?thesis using up by simp
qed

section \<open>The rate calculator\<close>

text \<open>
  C1. The claim: \<^verbatim>\<open>calculatePer1000\<close> returns a result for every input shape, and
  \<open>{numericValue: 0, displayValue: "0"}\<close> when the record is absent. The code reads
  \<^verbatim>\<open>data.deaths\<close> or \<^verbatim>\<open>data.cases\<close> on its first line, before the guard \<^verbatim>\<open>!data\<close>
  that its comment says checks for an undefined record: on an absent record
  (\<^verbatim>\<open>undefined\<close> or \<^verbatim>\<open>null\<close>) the call throws a TypeError and the guard is never reached.
\<close>

theorem calculatePer1000_absent_record:
  "calculatePer1000 (Prim JUndefined) forDeaths = Inl TypeError
   \<and> calculatePer1000 (Prim JNull) forDeaths = Inl TypeError"
  by (simp add: calculatePer1000_def)

theorem calculatePer1000_absent_record_witness:
  "calculatePer1000 (Prim JUndefined) False = Inl TypeError
   \<and> calculatePer1000 (Prim JNull) True = Inl TypeError"
  using calculatePer1000_absent_record [of False] calculatePer1000_absent_record [of True]
  by simp

text \<open>Every other argument gets a result: the absent record is the only input that
  throws.\<close>

lemma calculatePer1000_returns:
  assumes "data \<noteq> Prim JUndefined" "data \<noteq> Prim JNull"
  shows "\<exists>r. calculatePer1000 data forDeaths = Inr r"
proof -
  have "\<exists>v. get_prop data k = Inr v" for k
    using assms by (cases "(data, k)" rule: get_prop.cases) auto
  then obtain v p where "get_prop data (if forDeaths then ''deaths'' else ''cases'') = Inr v"
    "get_prop data ''popData2019'' = Inr p" by blast
  then show ?thesis by (simp add: calculatePer1000_def Let_def)
qed

text \<open>
  C3. For every record whose population is zero and whose selected count (\<^verbatim>\<open>deaths\<close>
  when \<open>forDeaths\<close>, \<^verbatim>\<open>cases\<close> otherwise) is not the number zero, the division gives an
  infinity or NaN and \<^verbatim>\<open>calculatePer1000\<close> returns numericValue 0.0001 (the double of
  that literal) with displayValue \<open>"0"\<close>.
\<close>

theorem calculatePer1000_zero_population:
  assumes "obj_get ob (if forDeaths then ''deaths'' else ''cases'') = v"
      and "v \<noteq> JNum (Finite 0)"
      and "obj_get ob ''popData2019'' = JNum (Finite 0)"
  shows "calculatePer1000 (Object ob) forDeaths =
           Inr \<lparr>numericValue = Finite (nearest (1 / 10000)), displayValue = ''0''\<rparr>"
proof -
  have ne: "\<not> strict_equals v (JNum (Finite 0))"
    using assms(2) by (cases v) auto
  have zero: "Number_divide (to_double (Finite 0)) (Finite 1000) = Finite 0"
    by (simp add: Number_divide_def Number_value_def nearest_def)
  have "\<not> num_isFinite (to_double (num_div x (Finite 0)))" for x
    by (cases x) auto
  then have "\<not> num_isFinite (Number_divide (to_double (ToNumber v)) (Finite 0))"
    by (simp add: Number_divide_def)
  then show ?thesis
    using assms ne zero by (simp add: calculatePer1000_def)
qed

theorem calculatePer1000_zero_population_witness:
  "obj_get [(''cases'', JNum (Finite 5)), (''popData2019'', JNum (Finite 0))] ''cases'' = JNum (Finite 5)
   \<and> JNum (Finite 5) \<noteq> JNum (Finite 0)
   \<and> obj_get [(''cases'', JNum (Finite 5)), (''popData2019'', JNum (Finite 0))] ''popData2019'' = JNum (Finite 0)
   \<and> calculatePer1000 (Object [(''cases'', JNum (Finite 5)), (''popData2019'', JNum (Finite 0))]) False
       = Inr \<lparr>numericValue = Finite (nearest (1 / 10000)), displayValue = ''0''\<rparr>"
proof -
  let ?ob = "[(''cases'', JNum (Finite 5)), (''popData2019'', JNum (Finite 0))]"
  have h1: "obj_get ?ob (if False then ''deaths'' else ''cases'') = JNum (Finite 5)"
    by (simp add: obj_get_def)
  have h2: "JNum (Finite 5) \<noteq> JNum (Finite 0)" by simp
  have h3: "obj_get ?ob ''popData2019'' = JNum (Finite 0)" by (simp add: obj_get_def)
  show ?thesis
    using calculatePer1000_zero_population [OF h1 h2 h3] h1 h2 h3 by simp
qed

text \<open>
  C4, as amended. For every record with a selected count other than the number zero and
  a population other than \<^verbatim>\<open>null\<close> whose rate, the double that the two divisions
  \<open>count / (population / 1000)\<close> give, is a finite number \<open>r\<close>: numericValue is \<open>r\<close>;
  displayValue is the literal \<open>"<0.0001"\<close> when \<open>r\<close> is below the double 0.0001;
  otherwise, when \<open>r < 10 ^ 21\<close>, it is \<open>r\<close> formatted with exactly 4 digits after the
  decimal point; from \<open>10 ^ 21\<close> on, \<^verbatim>\<open>toFixed\<close> prints as \<^verbatim>\<open>Number::toString\<close> does, in
  exponent notation. (The claim as stated has no bound \<open>10 ^ 21\<close>.)
\<close>

theorem calculatePer1000_finite_rate:
  assumes "obj_get ob (if forDeaths then ''deaths'' else ''cases'') = v"
      and "v \<noteq> JNum (Finite 0)"
      and "obj_get ob ''popData2019'' = p"
      and "p \<noteq> JNull"
      and "Number_divide (to_double (ToNumber v))
             (Number_divide (to_double (ToNumber p)) (Finite 1000)) = Finite r"
  shows "calculatePer1000 (Object ob) forDeaths =
           Inr \<lparr>numericValue = Finite r,
                displayValue = (if r < nearest (1 / 10000) then ''<0.0001''
                                else if r < 10 ^ 21 then fixed_point 4 r
                                else Number_toString (Finite r))\<rparr>"
proof -
  have ne: "\<not> strict_equals v (JNum (Finite 0))"
    using assms(2) by (cases v) auto
  have nn: "\<not> strict_equals p JNull"
    using assms(4) by (cases p) auto
  have small: "0 < nearest (1 / 10000)"
    by (simp add: double_defs)
  have fx: "toFixed 4 (Finite r) = fixed_point 4 r" if "nearest (1 / 10000) \<le> r" "r < 10 ^ 21"
  proof -
    from that(1) small have "0 < r" by simp
    with that(2) show ?thesis by (intro toFixed_fixed_point) auto
  qed
  have big: "toFixed 4 (Finite r) = Number_toString (Finite r)" if "10 ^ 21 \<le> r"
  proof -
    from that have "0 < r" by (rule less_le_trans [rotated]) simp
    with that show ?thesis by (simp add: toFixed_def)
  qed
  have "calculatePer1000 (Object ob) forDeaths =
          Inr \<lparr>numericValue = Finite r,
               displayValue = (if r < nearest (1 / 10000) then ''<0.0001''
                               else toFixed 4 (Finite r))\<rparr>"
    using assms(1,3,5) ne nn by (simp add: calculatePer1000_def Let_def)
  then show ?thesis
    using fx big by (simp add: not_less)
qed

text \<open>
  The record \<open>{cases: 17, popData2019: 4352}\<close>: the population over 1000 is the double
  nearest to 4.352, the rate is the double nearest to 17 over that, a little below
  \<open>3.90625\<close>, and the display is \<open>"3.9062"\<close>.
\<close>

theorem calculatePer1000_finite_rate_witness:
  "obj_get [(''cases'', JNum (Finite 17)), (''popData2019'', JNum (Finite 4352))] ''cases'' = JNum (Finite 17)
   \<and> JNum (Finite 17) \<noteq> JNum (Finite 0)
   \<and> obj_get [(''cases'', JNum (Finite 17)), (''popData2019'', JNum (Finite 4352))] ''popData2019''
       = JNum (Finite 4352)
   \<and> JNum (Finite 4352) \<noteq> JNull
   \<and> Number_divide (to_double (ToNumber (JNum (Finite 17))))
        (Number_divide (to_double (ToNumber (JNum (Finite 4352)))) (Finite 1000))
       = Finite (8796093022207999 / 2251799813685248)
   \<and> calculatePer1000 (Object [(''cases'', JNum (Finite 17)), (''popData2019'', JNum (Finite 4352))]) False
       = Inr \<lparr>numericValue = Finite (8796093022207999 / 2251799813685248),
              displayValue = ''3.9062''\<rparr>"
proof -
  let ?ob = "[(''cases'', JNum (Finite 17)), (''popData2019'', JNum (Finite 4352))]"
  have h1: "obj_get ?ob (if False then ''deaths'' else ''cases'') = JNum (Finite 17)"
    by (simp add: obj_get_def)
  have h2: "JNum (Finite 17) \<noteq> JNum (Finite 0)" by simp
  have h3: "obj_get ?ob ''popData2019'' = JNum (Finite 4352)" by (simp add: obj_get_def)
  have h4: "JNum (Finite 4352) \<noteq> JNull" by simp
  have d1: "Number_value 17 = Finite 17" and d2: "Number_value 4352 = Finite 4352"
    by (simp_all add: double_defs)
  have d3: "Number_divide (Finite 4352) (Finite 1000) = Finite (1224979098644775 / 281474976710656)"
    by (simp add: double_defs)
  have d4: "Number_divide (Finite 17) (Finite (1224979098644775 / 281474976710656))
              = Finite (8796093022207999 / 2251799813685248)"
    by (simp add: double_defs)
  have h5: "Number_divide (to_double (ToNumber (JNum (Finite 17))))
              (Number_divide (to_double (ToNumber (JNum (Finite 4352)))) (Finite 1000))
            = Finite (8796093022207999 / 2251799813685248)"
    by (simp add: d1 d2 d3 d4)
  have small: "nearest (1 / 10000) = 7378697629483821 / 73786976294838206464"
    by (simp add: double_defs)
  have fp: "fixed_point 4 (8796093022207999 / 2251799813685248) = ''3.9062''"
    by (simp add: number_defs)
  show ?thesis
    using calculatePer1000_finite_rate [OF h1 h2 h3 h4 h5] h1 h2 h3 h4 h5 fp
    by (simp add: small)
qed

text \<open>
  The claim C4 as stated fails on the record \<open>{cases: 1e21, popData2019: 1000}\<close>: the count
  is not zero, the population is not null, the rate \<open>10 ^ 21\<close> is finite and not below
  0.0001, and the displayValue is \<open>"1e+21"\<close>, with no digit after a decimal point, where 4
  digits after the point would be \<open>"1000000000000000000000.0000"\<close>.
\<close>

theorem calculatePer1000_huge_rate_counterexample:
  "obj_get [(''cases'', JNum (Finite (10 ^ 21))), (''popData2019'', JNum (Finite 1000))] ''cases''
       \<noteq> JNum (Finite 0)
   \<and> obj_get [(''cases'', JNum (Finite (10 ^ 21))), (''popData2019'', JNum (Finite 1000))] ''popData2019''
       \<noteq> JNull
   \<and> Number_divide (to_double (ToNumber (JNum (Finite (10 ^ 21)))))
        (Number_divide (to_double (ToNumber (JNum (Finite 1000)))) (Finite 1000))
       = Finite (10 ^ 21)
   \<and> \<not> (10 ^ 21 < nearest (1 / 10000))
   \<and> calculatePer1000 (Object [(''cases'', JNum (Finite (10 ^ 21))), (''popData2019'', JNum (Finite 1000))]) False
       = Inr \<lparr>numericValue = Finite (10 ^ 21), displayValue = ''1e+21''\<rparr>
   \<and> fixed_point 4 (10 ^ 21) = ''1000000000000000000000.0000''"
proof -
  have d1: "Number_value (10 ^ 21) = Finite (10 ^ 21)"
    and d2: "Number_value 1000 = Finite 1000"
    and d3: "Number_divide (Finite 1000) (Finite 1000) = Finite 1"
    and d4: "Number_divide (Finite (10 ^ 21)) (Finite 1) = Finite (10 ^ 21)"
    and small: "nearest (1 / 10000) = 7378697629483821 / 73786976294838206464"
    by (simp_all add: double_defs)
  have r20: "Number_value 2000000000000000000000 = Finite 2000000000000000000000"
    by (simp add: double_defs)
  have r10: "Number_value 1000000000000000000000 = Finite 1000000000000000000000"
    by (simp add: double_defs)
  have str: "Number_toString (Finite (10 ^ 21)) = ''1e+21''"
    by (simp add: toString_defs r10 r20)
  have fx: "toFixed 4 (Finite (10 ^ 21)) = ''1e+21''"
    using str by (simp add: toFixed_def)
  have fp: "fixed_point 4 (10 ^ 21) = ''1000000000000000000000.0000''"
    by (simp add: number_defs)
  show ?thesis
    using fx fp by (simp add: calculatePer1000_def obj_get_def d1 [simplified] d2 d3 d4 [simplified] small Let_def)
qed

section \<open>Pagination\<close>

lemma filter_interval_upt:
  fixes a b len :: nat
  shows "filter (\<lambda>i. a \<le> i \<and> i < b) [0..<len] = [a..<min b len]"
  by (rule sorted_distinct_set_unique) (auto intro: sorted_wrt_filter)

lemma map_nth_upt_take_drop:
  assumes "c \<le> length xs"
  shows "map (\<lambda>i. xs ! i) [a..<c] = take (c - a) (drop a xs)"
  using assms by (intro nth_equalityI) (auto simp: min_def)

lemma interval_rows_nat:
  fixes a b :: nat
  shows "interval_rows xs (int a) (int b) = take (min b (length xs) - a) (drop a xs)"
  unfolding interval_rows_def
  by (simp add: filter_interval_upt map_nth_upt_take_drop)

lemma take_min_drop: "take (min b (length xs) - a) (drop a xs) = take (b - a) (drop a xs)"
  by (simp add: min_def)

lemma relative_index_nat [simp]:
  "relative_index len (Finite (of_nat n)) = min n len"
  by (simp add: relative_index_def Let_def min_def)

lemma ceiling_rat_numeral [simp]:
  "\<lceil>numeral a / numeral b :: rat\<rceil> = - ((- numeral a) div numeral b)"
proof -
  have "\<lfloor>rat_of_int (- numeral a) / rat_of_int (numeral b)\<rfloor> = (- numeral a) div numeral b"
    by (rule floor_divide_of_int_eq)
  then show ?thesis by (simp add: ceiling_def)
qed

text \<open>
  C8. For every list of filtered and sorted rows, every integer \<open>itemsPerPage > 0\<close> and
  every page number \<open>currentPage \<ge> 1\<close>: the table body is exactly the slice
  \<open>[(currentPage - 1) * itemsPerPage, currentPage * itemsPerPage)\<close> of the rows, and
  \<open>totalPages\<close> is the ceiling of the row count over \<open>itemsPerPage\<close>. In particular,
  with 23 rows and 10 items per page there are 3 pages, page 3 has exactly 3 rows and
  page 4 is the empty slice; nothing throws.
\<close>

theorem pagination:
  assumes "0 < itemsPerPage" and "1 \<le> currentPage"
  shows "pageRows rows (Finite (of_int currentPage)) (Finite (of_int itemsPerPage))
           = interval_rows rows ((currentPage - 1) * itemsPerPage) (currentPage * itemsPerPage)
         \<and> totalPages rows (Finite (of_int itemsPerPage))
           = Finite (of_int \<lceil>rat_of_nat (length rows) / rat_of_int itemsPerPage\<rceil>)
         \<and> (length rows = 23 \<and> itemsPerPage = 10 \<longrightarrow>
              totalPages rows (Finite (of_int itemsPerPage)) = Finite 3
              \<and> (currentPage = 3 \<longrightarrow>
                   length (pageRows rows (Finite (of_int currentPage)) (Finite (of_int itemsPerPage))) = 3)
              \<and> (currentPage = 4 \<longrightarrow>
                   pageRows rows (Finite (of_int currentPage)) (Finite (of_int itemsPerPage)) = []))"
proof -
  define a where "a = nat ((currentPage - 1) * itemsPerPage)"
  define b where "b = nat (currentPage * itemsPerPage)"
  have nonneg: "0 \<le> (currentPage - 1) * itemsPerPage" "0 \<le> currentPage * itemsPerPage"
    using assms by simp_all
  then have ab: "(currentPage - 1) * itemsPerPage = int a" "currentPage * itemsPerPage = int b"
    by (simp_all add: a_def b_def)
  have "(rat_of_int currentPage - 1) * rat_of_int itemsPerPage
          = rat_of_int ((currentPage - 1) * itemsPerPage)" by simp
  also have "\<dots> = rat_of_int (int a)" by (simp only: ab)
  also have "\<dots> = rat_of_nat a" by (rule of_int_of_nat_eq)
  finally have start: "num_mul (num_sub (Finite (of_int currentPage)) (Finite 1)) (Finite (of_int itemsPerPage))
                 = Finite (of_nat a)"
    by simp
  have "rat_of_int currentPage * rat_of_int itemsPerPage = rat_of_int (currentPage * itemsPerPage)"
    by simp
  also have "\<dots> = rat_of_int (int b)" by (simp only: ab)
  also have "\<dots> = rat_of_nat b" by (rule of_int_of_nat_eq)
  finally have fin: "num_mul (Finite (of_int currentPage)) (Finite (of_int itemsPerPage)) = Finite (of_nat b)"
    by simp
  have page: "pageRows rows (Finite (of_int currentPage)) (Finite (of_int itemsPerPage))
                = take (min b (length rows) - a) (drop a rows)"
    unfolding pageRows_def js_slice_def start fin Let_def relative_index_nat
    by (cases "a \<le> length rows") (simp_all add: min_def)
  have slice: "pageRows rows (Finite (of_int currentPage)) (Finite (of_int itemsPerPage))
                 = interval_rows rows ((currentPage - 1) * itemsPerPage) (currentPage * itemsPerPage)"
    by (simp only: page ab interval_rows_nat)
  have total: "totalPages rows (Finite (of_int itemsPerPage))
                 = Finite (of_int \<lceil>rat_of_nat (length rows) / rat_of_int itemsPerPage\<rceil>)"
    using assms(1) by (simp add: totalPages_def)
  have ex: "totalPages rows (Finite (of_int itemsPerPage)) = Finite 3
            \<and> (currentPage = 3 \<longrightarrow>
                 length (pageRows rows (Finite (of_int currentPage)) (Finite (of_int itemsPerPage))) = 3)
            \<and> (currentPage = 4 \<longrightarrow>
                 pageRows rows (Finite (of_int currentPage)) (Finite (of_int itemsPerPage)) = [])"
    if "length rows = 23" "itemsPerPage = 10"
    using that total page by (auto simp add: a_def b_def)
  from slice total ex show ?thesis by blast
qed


theorem pagination_witness:
  "(0::int) < 10 \<and> (1::int) \<le> 3
   \<and> totalPages [1..<24::nat] (Finite 10) = Finite 3
   \<and> pageRows [1..<24::nat] (Finite 3) (Finite 10) = [21, 22, 23]
   \<and> pageRows [1..<24::nat] (Finite 4) (Finite 10) = []"
proof -
  have h1: "(0::int) < 10" and h3: "(1::int) \<le> 3" and h4: "(1::int) \<le> 4" by simp_all
  have len: "length [1..<24::nat] = 23" by simp
  have i3: "interval_rows [1..<24::nat] ((3 - 1) * 10) (3 * 10) = [21, 22, 23]"
    by (simp add: interval_rows_nat [of _ 20 30, simplified] upt_rec_numeral)
  have i4: "interval_rows [1..<24::nat] ((4 - 1) * 10) (4 * 10) = []"
    by (simp add: interval_rows_nat [of _ 30 40, simplified])
  show ?thesis
    using pagination [OF h1 h3, of "[1..<24::nat]"] pagination [OF h1 h4, of "[1..<24::nat]"] len i3 i4
    by simp
qed

section \<open>The table sort\<close>

text \<open>The definitions that evaluate a comparison on concrete rows.\<close>

lemmas parse_defs = StringToNumber_def trim_def trim_start_def is_ws_def parse_nondecimal_def
  parse_signed_decimal_def parse_unsigned_decimal_def is_digit_of_def digit_of_def
  nat_of_digits_def parse_exponent_def scale10_def parseFloat_def isNaN_def Let_def

lemmas sort_value_defs = sort_value_def column_key_def numeric_columns_def obj_get_def
  numeric_value_def js_or_def

lemmas sort_defs = sortData_def compare_rows_def localeCompare_call_def sort_value_defs parse_defs

subsection \<open>Numeric columns\<close>

lemma numeric_value_not_NaN: "\<not> isNaN (numeric_value x)"
proof (cases "isNaN x")
  case True
  show ?thesis
  proof (cases "parseFloat x")
    case (Finite q)
    with True show ?thesis by (simp add: numeric_value_def js_or_def isNaN_def)
  qed (use True in \<open>simp_all add: numeric_value_def js_or_def isNaN_def\<close>)
next
  case False
  then show ?thesis by (simp add: numeric_value_def isNaN_def)
qed

lemma sort_value_numeric:
  assumes "column \<in> set numeric_columns"
  shows "sort_value (Some column) a = numeric_value (obj_get a column)"
proof -
  from assms have "column \<noteq> ''country''" by (auto simp: numeric_columns_def)
  with assms show ?thesis by (simp add: sort_value_def column_key_def)
qed

text \<open>
  C9, as amended. On a numeric column (\<^verbatim>\<open>totalCases\<close>, \<^verbatim>\<open>totalDeaths\<close>,
  \<^verbatim>\<open>casesPer1000\<close>, \<^verbatim>\<open>deathsPer1000\<close>, \<^verbatim>\<open>averageCases\<close>, \<^verbatim>\<open>averageDeaths\<close>,
  \<^verbatim>\<open>maxCases\<close>, \<^verbatim>\<open>maxDeaths\<close>) the coerced value of a row is never NaN: a raw value
  that is not numeric is replaced by what \<^verbatim>\<open>parseFloat\<close> reads of it, or by 0. The
  comparator therefore never calls \<^verbatim>\<open>localeCompare\<close> on such a column: for every pair
  of rows, every direction and every collation its result is the numeric difference of
  the two coerced values (negated unless the direction is \<^verbatim>\<open>asc\<close>).
\<close>

theorem numeric_column_compare:
  assumes "column \<in> set numeric_columns"
  shows "\<not> isNaN (sort_value (Some column) a) \<and> \<not> isNaN (sort_value (Some column) b)
         \<and> compare_rows lc (Some column) direction a b
             = Inr (if direction = ''asc''
                    then num_sub (ToNumber (sort_value (Some column) a))
                                 (ToNumber (sort_value (Some column) b))
                    else num_neg (num_sub (ToNumber (sort_value (Some column) a))
                                          (ToNumber (sort_value (Some column) b))))"
  using assms by (simp add: sort_value_numeric numeric_value_not_NaN compare_rows_def Let_def)

theorem numeric_column_compare_witness:
  "''averageCases'' \<in> set numeric_columns
   \<and> sort_value (Some ''averageCases'') [(''averageCases'', JStr ''abc'')] = JNum (Finite 0)
   \<and> sort_value (Some ''averageCases'') [(''averageCases'', JStr ''12.5000'')] = JNum (Finite (25 / 2))
   \<and> compare_rows codeunit_compare (Some ''averageCases'') ''asc''
        [(''averageCases'', JStr ''abc'')] [(''averageCases'', JStr ''12.5000'')]
      = Inr (Finite (- 25 / 2))"
proof -
  have h: "''averageCases'' \<in> set numeric_columns" by (simp add: numeric_columns_def)
  have a: "sort_value (Some ''averageCases'') [(''averageCases'', JStr ''abc'')] = JNum (Finite 0)"
    by (simp add: sort_value_defs parse_defs)
  have b: "sort_value (Some ''averageCases'') [(''averageCases'', JStr ''12.5000'')]
             = JNum (Finite (25 / 2))"
    by (simp add: sort_value_defs parse_defs)
  have c: "compare_rows codeunit_compare (Some ''averageCases'') ''asc''
        [(''averageCases'', JStr ''abc'')] [(''averageCases'', JStr ''12.5000'')]
      = Inr (num_sub (ToNumber (JNum (Finite 0))) (ToNumber (JNum (Finite (25 / 2)))))"
    using numeric_column_compare [OF h, of "[(''averageCases'', JStr ''abc'')]"
        "[(''averageCases'', JStr ''12.5000'')]" codeunit_compare "''asc''"]
    unfolding a b by simp
  show ?thesis
    unfolding c a b using h by simp
qed

text \<open>
  The claim C9 as stated says that for some pair of rows on a numeric column a coerced
  value is NaN and the comparator falls back to the string comparison. No such pair
  exists.
\<close>

theorem numeric_column_fallback_counterexample:
  "\<not> (\<exists>column a b. column \<in> set numeric_columns
         \<and> (isNaN (sort_value (Some column) a) \<or> isNaN (sort_value (Some column) b)))"
  by (simp add: sort_value_numeric numeric_value_not_NaN)

subsection \<open>The sort without exceptions\<close>

lemma set_insort_gt [simp]: "set (insort_gt gt x ys) = insert x (set ys)"
  by (induction ys) auto

lemma set_isort_gt [simp]: "set (isort_gt gt xs) = set xs"
  by (induction xs) auto

lemma length_isort_gt [simp]: "length (isort_gt gt xs) = length xs"
proof -
  have "length (insort_gt gt x ys) = Suc (length ys)" for x ys
    by (induction ys) auto
  then show ?thesis by (induction xs) auto
qed










subsection \<open>The country column\<close>



















subsection \<open>The heap\<close>

lemma insort_by_map:
  "insort_by cmp (f x) (map f ys)
     = map_sum (\<lambda>e. e) (map f) (insort_by (\<lambda>a b. cmp (f a) (f b)) x ys)"
  by (induction ys) (auto split: sum.splits)

lemma js_sort_map:
  "js_sort cmp (map f xs) = map_sum (\<lambda>e. e) (map f) (js_sort (\<lambda>a b. cmp (f a) (f b)) xs)"
  by (induction xs) (auto simp: insort_by_map split: sum.splits)

text \<open>
  C10. For every heap, every array \<^verbatim>\<open>data\<close> of it, every column and every direction,
  \<^verbatim>\<open>sortData\<close> does not change its argument: after the call every array the heap had,
  \<^verbatim>\<open>data\<close> among them, holds the same rows in the same order, and no object has
  changed. When the call returns, what it returns is a newly allocated array (an address
  the heap did not have) which holds the rows of \<^verbatim>\<open>data\<close> as \<^verbatim>\<open>sortData\<close> on values
  orders them; when the comparator throws, the argument is unchanged all the same.
\<close>

theorem sortData_heap_frame:
  assumes "data < length (arrays h)"
  shows "\<exists>h' r. sortData_heap lc h data column direction = (h', r)
           \<and> objects h' = objects h
           \<and> take (length (arrays h)) (arrays h') = arrays h
           \<and> arrays h' ! data = arrays h ! data
           \<and> (\<forall>p. r = Inr p \<longrightarrow>
                 p = length (arrays h) \<and> p < length (arrays h')
                 \<and> sortData lc (map (\<lambda>a. objects h ! a) (arrays h ! data)) column direction
                     = Inr (map (\<lambda>a. objects h' ! a) (arrays h' ! p)))
           \<and> (\<forall>e. r = Inl e \<longrightarrow>
                 sortData lc (map (\<lambda>a. objects h ! a) (arrays h ! data)) column direction = Inl e)"
proof (cases "js_sort (\<lambda>a b. compare_rows lc column direction (objects h ! a) (objects h ! b))
                (arrays h ! data)")
  case (Inl e)
  then have "sortData lc (map (\<lambda>a. objects h ! a) (arrays h ! data)) column direction = Inl e"
    by (simp add: sortData_def js_sort_map)
  with Inl assms show ?thesis
    by (simp add: sortData_heap_def Let_def nth_append)
next
  case (Inr ys)
  then have "sortData lc (map (\<lambda>a. objects h ! a) (arrays h ! data)) column direction
               = Inr (map (\<lambda>a. objects h ! a) ys)"
    by (simp add: sortData_def js_sort_map)
  with Inr assms show ?thesis
    by (simp add: sortData_heap_def Let_def nth_append)
qed

theorem sortData_heap_frame_witness:
  "(0::nat) < length (arrays \<lparr>objects = [[(''country'', JStr ''France'')], [(''country'', JStr ''Austria'')]],
                               arrays = [[0, 1]]\<rparr>)
   \<and> sortData_heap codeunit_compare
        \<lparr>objects = [[(''country'', JStr ''France'')], [(''country'', JStr ''Austria'')]],
         arrays = [[0, 1]]\<rparr> 0 (Some ''country'') ''asc''
      = (\<lparr>objects = [[(''country'', JStr ''France'')], [(''country'', JStr ''Austria'')]],
          arrays = [[0, 1], [1, 0]]\<rparr>, Inr 1)"
proof -
  let ?h = "\<lparr>objects = [[(''country'', JStr ''France'')], [(''country'', JStr ''Austria'')]],
             arrays = [[0, 1 :: nat]]\<rparr>"
  have h: "(0::nat) < length (arrays ?h)" by simp
  have "sortData_heap codeunit_compare ?h 0 (Some ''country'') ''asc''
          = (\<lparr>objects = [[(''country'', JStr ''France'')], [(''country'', JStr ''Austria'')]],
              arrays = [[0, 1], [1, 0]]\<rparr>, Inr 1)"
    by (simp add: sortData_heap_def sort_defs)
  with sortData_heap_frame [OF h, of codeunit_compare "Some ''country''" "''asc''"] h
  show ?thesis by simp
qed

section \<open>The date-range filter\<close>

lemmas date_defs = isDateValid_def Date_new_def Date_parse_def record_date_def TimeClip_def MakeDay_def
  DayFromYear_def InLeapYear_def month_start_def num_le_def obj_get_def is_digit_of_def digit_of_def
  nat_of_digits_def Let_def

text \<open>
  C2. The claim: the date clause of the filter reads the row's date string in
  day/month/year order, and passes the row iff that date is valid and within the bounds
  that are set. The code hands the string as it came (\<^verbatim>\<open>new Date(entry.date)\<close>, where
  \<^verbatim>\<open>date\<close> is the record's \<^verbatim>\<open>dateRep\<close>, day first) to the Date constructor, which reads
  the month first; the bounds of the date pickers are computed in \<^verbatim>\<open>fetchData\<close> from the
  same strings after reordering them to month/day/year (\<open>record_date\<close>). So the row of
  25 December 2020 is excluded with no bound set, although its date is a valid
  day/month/year date; and with the range 1 March 2020 to 31 March 2020 the row of
  5 March 2020 is excluded and the row of 3 May 2020 passes.
\<close>

theorem date_filter_reads_month_first:
  "\<not> isDateValid [(''date'', JStr ''25/12/2020'')] None None
   \<and> record_date ''25/12/2020'' = Finite 1608854400000
   \<and> record_date ''01/03/2020'' = Finite 1583020800000
   \<and> record_date ''31/03/2020'' = Finite 1585612800000
   \<and> \<not> isDateValid [(''date'', JStr ''05/03/2020'')]
          (Some (Finite 1583020800000)) (Some (Finite 1585612800000))
   \<and> isDateValid [(''date'', JStr ''03/05/2020'')]
          (Some (Finite 1583020800000)) (Some (Finite 1585612800000))"
  by (simp add: date_defs)

theorem date_filter_reads_month_first_witness:
  "\<not> isDateValid [(''date'', JStr ''25/12/2020'')] None None
   \<and> isDateValid [(''date'', JStr ''03/05/2020'')]
        (Some (record_date ''01/03/2020'')) (Some (record_date ''31/03/2020''))"
  using date_filter_reads_month_first by simp

section \<open>Loading the data\<close>

subsection \<open>The first loop\<close>

lemma process_record_pure:
  "process_record record (tc, td, rows) =
     Inr (add_total tc (countriesAndTerritories record) (count (cases record)),
          add_total td (countriesAndTerritories record) (count (deaths record)),
          rows @ [row_of record])"
proof -
  obtain c where c: "calculatePer1000 (Object (record_obj record)) False = Inr c"
    using calculatePer1000_returns [of "Object (record_obj record)" False] by auto
  obtain d where d: "calculatePer1000 (Object (record_obj record)) True = Inr d"
    using calculatePer1000_returns [of "Object (record_obj record)" True] by auto
  show ?thesis by (simp add: process_record_def c d row_of_def rate5_def)
qed

lemma for_each_process_record:
  "for_each process_record records (tc, td, rows) =
     Inr (foldl (\<lambda>t r. add_total t (countriesAndTerritories r) (count (cases r))) tc records,
          foldl (\<lambda>t r. add_total t (countriesAndTerritories r) (count (deaths r))) td records,
          rows @ map row_of records)"
proof (induction records arbitrary: tc td rows)
  case Nil
  then show ?case by simp
next
  case (Cons r records)
  have "for_each process_record (r # records) (tc, td, rows)
          = for_each process_record records
              (add_total tc (countriesAndTerritories r) (count (cases r)),
               add_total td (countriesAndTerritories r) (count (deaths r)),
               rows @ [row_of r])"
    by (simp only: for_each.simps process_record_pure sum.case)
  then show ?case by (simp only: Cons.IH) simp
qed

subsection \<open>The totals\<close>

lemma dict_get_ordinary:
  assumes "k \<notin> set Object_prototype_names"
  shows "dict_get d k = (case d k of Some v \<Rightarrow> Own v | None \<Rightarrow> Undefined)"
  using assms by (simp add: dict_get_def Object_prototype_names_def split: option.splits)




lemma count_exact: "\<bar>n\<bar> \<le> 2 ^ 53 \<Longrightarrow> count n = Finite (of_int n)"
  by (simp add: count_def Number_value_of_int)

lemma Number_add_exact:
  assumes "\<bar>a + b\<bar> \<le> 2 ^ 53"
  shows "Number_add (Finite (of_int a)) (Finite (of_int b)) = Finite (of_int (a + b))"
  using Number_value_of_int [OF assms] by (simp add: Number_add_def)


lemma magnitude_Cons: "magnitude (x # xs) = \<bar>x\<bar> + magnitude xs"
  by (simp add: magnitude_def)

lemma magnitude_nonneg: "0 \<le> magnitude xs"
  by (induction xs) (simp_all add: magnitude_def)

lemma abs_sum_list_le: "\<bar>sum_list xs\<bar> \<le> magnitude xs" for xs :: "int list"
  by (induction xs) (auto simp add: magnitude_def)

lemma abs_le_magnitude: "x \<in> set xs \<Longrightarrow> \<bar>x\<bar> \<le> magnitude xs"
proof (induction xs)
  case Nil
  then show ?case by simp
next
  case (Cons y ys)
  have "0 \<le> magnitude ys" by (rule magnitude_nonneg)
  with Cons show ?case by (auto simp add: magnitude_Cons)
qed


subsection \<open>The daily dictionary\<close>

lemma daily_add_ordinary:
  assumes "dateRep r \<notin> set Object_prototype_names"
  shows "daily_add r D = Inr (daily_put D r)"
proof (cases "map_of D (dateRep r)")
  case None
  then have "dateRep r \<notin> fst ` set D" by (simp add: map_of_eq_None_iff)
  with None show ?thesis
    by (simp add: daily_add_def daily_put_def dict_get_ordinary [OF assms])
next
  case (Some e)
  then have "dateRep r \<in> fst ` set D" by (metis map_of_eq_None_iff option.distinct(1))
  with Some show ?thesis
    by (simp add: daily_add_def daily_put_def dict_get_ordinary [OF assms])
qed

lemma for_each_daily_add:
  assumes "\<forall>r\<in>set records. dateRep r \<notin> set Object_prototype_names"
  shows "for_each daily_add records D = Inr (foldl daily_put D records)"
  using assms by (induction records arbitrary: D) (simp_all add: daily_add_ordinary)

lemma fst_daily_put:
  "map fst (daily_put D r) = (if dateRep r \<in> fst ` set D then map fst D else map fst D @ [dateRep r])"
proof -
  have "map fst (map (\<lambda>(k, cs, ds). if k = d then (k, cs @ [c], ds @ [e]) else (k, cs, ds)) D) = map fst D"
    for d c e
    by (induction D) auto
  then show ?thesis by (simp add: daily_put_def)
qed

lemma distinct_daily_put: "distinct (map fst D) \<Longrightarrow> distinct (map fst (daily_put D r))"
  by (auto simp add: fst_daily_put)

lemma map_of_daily_replace:
  "map_of (map (\<lambda>(k, cs, ds). if k = d then (k, cs @ [c], ds @ [e]) else (k, cs, ds)) D) d'
     = (if d' = d then (case map_of D d of Some (cs, ds) \<Rightarrow> Some (cs @ [c], ds @ [e]) | None \<Rightarrow> None)
        else map_of D d')"
  by (induction D) (auto split: option.splits)

lemma map_of_daily_put:
  "map_of (daily_put D r) d
     = (if d = dateRep r
        then Some (fst (daily_entry D d) @ [count (cases r)], snd (daily_entry D d) @ [count (deaths r)])
        else map_of D d)"
proof (cases "dateRep r \<in> fst ` set D")
  case True
  then obtain p where "map_of D (dateRep r) = Some p"
    by (metis map_of_eq_None_iff not_Some_eq)
  with True show ?thesis
    by (cases p) (simp add: daily_put_def map_of_daily_replace daily_entry_def)
next
  case False
  then have "map_of D (dateRep r) = None" by (simp add: map_of_eq_None_iff)
  with False show ?thesis
    by (auto simp add: daily_put_def daily_entry_def map_add_def split: option.splits)
qed

lemma daily_entry_daily_put:
  "daily_entry (daily_put D r) d
     = (if d = dateRep r
        then (fst (daily_entry D d) @ [count (cases r)], snd (daily_entry D d) @ [count (deaths r)])
        else daily_entry D d)"
  by (simp add: daily_entry_def map_of_daily_put)

lemma daily_entry_foldl:
  "daily_entry (foldl daily_put D rs) d
     = (fst (daily_entry D d) @ map (\<lambda>r. count (cases r)) (date_group rs d),
        snd (daily_entry D d) @ map (\<lambda>r. count (deaths r)) (date_group rs d))"
proof (induction rs arbitrary: D)
  case Nil
  then show ?case by (simp add: date_group_def)
next
  case (Cons r rs)
  have "daily_entry (foldl daily_put D (r # rs)) d = daily_entry (foldl daily_put (daily_put D r) rs) d"
    by simp
  also have "\<dots> = (fst (daily_entry (daily_put D r) d) @ map (\<lambda>r. count (cases r)) (date_group rs d),
                     snd (daily_entry (daily_put D r) d) @ map (\<lambda>r. count (deaths r)) (date_group rs d))"
    by (rule Cons.IH)
  finally show ?case
    by (cases "d = dateRep r") (simp_all add: daily_entry_daily_put date_group_def)
qed

lemma distinct_foldl_daily_put:
  "distinct (map fst D) \<Longrightarrow> distinct (map fst (foldl daily_put D rs))"
  by (induction rs arbitrary: D) (simp_all add: distinct_daily_put)

lemma keys_foldl_daily_put:
  "fst ` set (foldl daily_put D rs) = fst ` set D \<union> dateRep ` set rs"
proof (induction rs arbitrary: D)
  case Nil
  then show ?case by simp
next
  case (Cons r rs)
  have "set (map fst (daily_put D r)) = insert (dateRep r) (set (map fst D))"
    unfolding fst_daily_put by auto
  then have "fst ` set (daily_put D r) = insert (dateRep r) (fst ` set D)" by simp
  then show ?case by (simp add: Cons.IH)
qed

subsection \<open>The aggregates of one date\<close>

lemma foldl_Number_add:
  assumes "\<bar>s\<bar> + magnitude xs \<le> 2 ^ 53"
  shows "foldl Number_add (Finite (of_int s)) (map count xs) = Finite (of_int (s + sum_list xs))"
  using assms
proof (induction xs arbitrary: s)
  case Nil
  then show ?case by simp
next
  case (Cons x xs)
  have "0 \<le> magnitude xs" by (rule magnitude_nonneg)
  with Cons.prems have x: "\<bar>x\<bar> \<le> 2 ^ 53" and sx: "\<bar>s + x\<bar> \<le> 2 ^ 53"
    and rest: "\<bar>s + x\<bar> + magnitude xs \<le> 2 ^ 53"
    by (simp_all add: magnitude_Cons)
  have "Number_add (Finite (of_int s)) (count x) = Finite (of_int (s + x))"
    by (simp add: count_exact [OF x] Number_add_exact [OF sx])
  then show ?case using Cons.IH [OF rest] by (simp add: add.assoc)
qed

lemma average4_mean:
  assumes "xs \<noteq> []" "magnitude xs \<le> 2 ^ 53"
  shows "average4 (map count xs) = fixed_point 4 (nearest (mean xs))"
proof -
  have sum: "foldl Number_add (Finite 0) (map count xs) = Finite (of_int (sum_list xs))"
    using foldl_Number_add [of 0 xs] assms(2) by simp
  from assms(1) have "Suc 0 \<le> length xs" by (cases xs) simp_all
  then have "rat_of_nat (Suc 0) \<le> rat_of_nat (length xs)" by (rule of_nat_mono)
  then have len: "rat_of_nat (length xs) \<noteq> 0" "1 \<le> rat_of_nat (length xs)"
    using assms(1) by simp_all
  have "\<bar>mean xs\<bar> = \<bar>rat_of_int (sum_list xs)\<bar> / rat_of_nat (length xs)"
    by (simp add: mean_def)
  also have "\<dots> \<le> \<bar>rat_of_int (sum_list xs)\<bar> / 1"
    using len(2) assms(1) by (intro divide_left_mono) simp_all
  also have "\<dots> = rat_of_int \<bar>sum_list xs\<bar>" by simp
  also have "\<dots> \<le> rat_of_int (2 ^ 53)"
    using abs_sum_list_le [of xs] assms(2) by (intro of_int_le_iff [THEN iffD2]) linarith
  finally have m: "\<bar>mean xs\<bar> \<le> 2 ^ 53" by simp
  then have b: "\<bar>nearest (mean xs)\<bar> \<le> 2 ^ 53 + 2" by (rule nearest_bound)
  have "(2::rat) ^ 53 + 2 < 2 ^ 1024" by simp
  with b have fin: "\<not> 2 ^ 1024 \<le> \<bar>nearest (mean xs)\<bar>" by linarith
  have "(2::rat) ^ 53 + 2 < 10 ^ 21" by simp
  with b have small: "\<bar>nearest (mean xs)\<bar> < 10 ^ 21" by linarith
  have "Number_divide (Finite (of_int (sum_list xs))) (Finite (of_nat (length xs)))
          = Number_value (mean xs)"
    using len(1) by (simp add: Number_divide_def mean_def)
  also have "\<dots> = Finite (nearest (mean xs))"
    using fin by (simp add: Number_value_def)
  finally show ?thesis
    using small by (simp add: average4_def sum toFixed_fixed_point)
qed

lemma foldl_max_Finite:
  "foldl (\<lambda>m x. if num_lt m x then x else m) (Finite (of_int a)) (map (\<lambda>x. Finite (of_int x)) xs)
     = Finite (of_int (Max (set (a # xs))))"
proof (induction xs arbitrary: a)
  case Nil
  then show ?case by simp
next
  case (Cons x xs)
  have "(if num_lt (Finite (rat_of_int a)) (Finite (of_int x)) then Finite (rat_of_int x)
         else Finite (of_int a)) = Finite (of_int (max a x))"
    by (simp add: max_def)
  then have "foldl (\<lambda>m x. if num_lt m x then x else m) (Finite (of_int a))
               (map (\<lambda>x. Finite (of_int x)) (x # xs))
             = Finite (of_int (Max (set (max a x # xs))))"
    using Cons.IH [of "max a x"] by simp
  also have "Max (set (max a x # xs)) = Max (set (a # x # xs))"
    by (cases "xs = []") (simp_all add: max.assoc)
  finally show ?case .
qed

lemma max4_maximum:
  assumes "xs \<noteq> []" "magnitude xs \<le> 2 ^ 53"
  shows "max4 (map count xs) = fixed_point 4 (maximum xs)"
proof -
  from assms(1) obtain x r where xs: "xs = x # r" by (cases xs) auto
  have each: "\<bar>y\<bar> \<le> 2 ^ 53" if "y \<in> set xs" for y
    using abs_le_magnitude [OF that] assms(2) by linarith
  then have cnt: "map count xs = map (\<lambda>x. Finite (of_int x)) xs"
    by (simp add: count_exact)
  have nonan: "\<not> list_ex num_isNaN (map (\<lambda>x. Finite (rat_of_int x)) xs)"
    by (simp add: list_ex_iff)
  have "Math_max (map count xs) = Finite (of_int (Max (set xs)))"
    unfolding cnt Math_max_def using nonan foldl_max_Finite [of x r] by (simp add: xs)
  moreover have "\<bar>rat_of_int (Max (set xs))\<bar> < 10 ^ 21"
  proof -
    have "Max (set xs) \<in> set xs" using assms(1) by (intro Max_in) simp_all
    then have "\<bar>Max (set xs)\<bar> \<le> 2 ^ 53" by (rule each)
    then have "rat_of_int \<bar>Max (set xs)\<bar> \<le> rat_of_int (2 ^ 53)" by (rule of_int_le_iff [THEN iffD2])
    then show ?thesis by simp
  qed
  ultimately show ?thesis
    by (simp add: max4_def maximum_def toFixed_fixed_point)
qed

subsection \<open>The back-fill of the daily aggregates\<close>

lemma foldl_backfill_daily:
  "foldl (\<lambda>rows entry. backfill_daily entry rows) rows D
     = map (\<lambda>row. foldl (\<lambda>data entry. daily_row entry data) row D) rows"
  by (induction D arbitrary: rows) (simp_all add: backfill_daily_def comp_def)

lemma daily_row_other [simp]:
  "country (daily_row entry data) = country data"
  "date (daily_row entry data) = date data"
  "totalCases (daily_row entry data) = totalCases data"
  "totalDeaths (daily_row entry data) = totalDeaths data"
  by (cases entry; simp add: daily_row_def)+

lemma foldl_daily_row_other [simp]:
  "country (foldl (\<lambda>data entry. daily_row entry data) row D) = country row"
  "date (foldl (\<lambda>data entry. daily_row entry data) row D) = date row"
  "totalCases (foldl (\<lambda>data entry. daily_row entry data) row D) = totalCases row"
  "totalDeaths (foldl (\<lambda>data entry. daily_row entry data) row D) = totalDeaths row"
  by (induction D arbitrary: row; simp)+

lemma foldl_daily_row_no_match:
  assumes "date row \<notin> fst ` set D"
  shows "foldl (\<lambda>data entry. daily_row entry data) row D = row"
  using assms
proof (induction D)
  case Nil
  then show ?case by simp
next
  case (Cons e D)
  obtain k cs ds where e: "e = (k, cs, ds)" by (cases e)
  from Cons.prems e have "k \<noteq> date row" by auto
  then have "daily_row e row = row" by (simp add: e daily_row_def)
  with Cons show ?case by simp
qed

lemma foldl_daily_row_match:
  assumes "distinct (map fst D)" and "map_of D (date row) = Some (cs, ds)"
  shows "foldl (\<lambda>data entry. daily_row entry data) row D = daily_row (date row, cs, ds) row"
  using assms
proof (induction D)
  case Nil
  then show ?case by simp
next
  case (Cons e D)
  obtain k cs' ds' where e: "e = (k, cs', ds')" by (cases e)
  show ?case
  proof (cases "k = date row")
    case True
    with Cons.prems e have same: "cs' = cs" "ds' = ds" and notin: "date row \<notin> fst ` set D" by auto
    have "date (daily_row (date row, cs, ds) row) \<notin> fst ` set D"
      using notin by simp
    then have "foldl (\<lambda>data entry. daily_row entry data) (daily_row (date row, cs, ds) row) D
                 = daily_row (date row, cs, ds) row"
      by (rule foldl_daily_row_no_match)
    then show ?thesis by (simp add: e True same)
  next
    case False
    then have "daily_row e row = row" by (simp add: e daily_row_def)
    moreover from Cons.prems e False have "distinct (map fst D)" "map_of D (date row) = Some (cs, ds)"
      by auto
    ultimately show ?thesis using Cons.IH by simp
  qed
qed

subsection \<open>The rows that \<open>fetchData\<close> leaves\<close>

lemma row_of_fields [simp]:
  "country (row_of r) = countriesAndTerritories r"
  "date (row_of r) = dateRep r"
  by (simp_all add: row_of_def newData_def)

lemma backfill_totals_fields [simp]:
  "country (backfill_totals tc td data) = country data"
  "date (backfill_totals tc td data) = date data"
  "totalCases (backfill_totals tc td data) = dict_get tc (country data)"
  "totalDeaths (backfill_totals tc td data) = dict_get td (country data)"
  by (simp_all add: backfill_totals_def)

lemma fetchData_rows:
  assumes "\<forall>r\<in>set records. dateRep r \<notin> set Object_prototype_names"
      and "length records \<le> max_arguments"
  shows "\<exists>f. fetchData max_arguments records = Inr f
           \<and> allData f
               = map (\<lambda>r. foldl (\<lambda>data entry. daily_row entry data)
                       (backfill_totals
                          (foldl (\<lambda>t r. add_total t (countriesAndTerritories r) (count (cases r)))
                             Map.empty records)
                          (foldl (\<lambda>t r. add_total t (countriesAndTerritories r) (count (deaths r)))
                             Map.empty records)
                          (row_of r))
                       (foldl daily_put [] records))
                   records"
  using assms(2)
  by (simp add: fetchData_def for_each_process_record for_each_daily_add [OF assms(1)]
      foldl_backfill_daily Let_def comp_def)

lemma fetchData_daily:
  assumes ok: "\<forall>r\<in>set records. dateRep r \<notin> set Object_prototype_names"
      and lim: "length records \<le> max_arguments"
      and i: "i < length records"
  shows "\<exists>f. fetchData max_arguments records = Inr f \<and> length (allData f) = length records
           \<and> country (allData f ! i) = countriesAndTerritories (records ! i)
           \<and> date (allData f ! i) = dateRep (records ! i)
           \<and> totalCases (allData f ! i)
               = dict_get (foldl (\<lambda>t r. add_total t (countriesAndTerritories r) (count (cases r)))
                             Map.empty records) (countriesAndTerritories (records ! i))
           \<and> totalDeaths (allData f ! i)
               = dict_get (foldl (\<lambda>t r. add_total t (countriesAndTerritories r) (count (deaths r)))
                             Map.empty records) (countriesAndTerritories (records ! i))
           \<and> averageCases (allData f ! i)
               = JStr (average4 (map (\<lambda>r. count (cases r)) (date_group records (dateRep (records ! i)))))
           \<and> averageDeaths (allData f ! i)
               = JStr (average4 (map (\<lambda>r. count (deaths r)) (date_group records (dateRep (records ! i)))))
           \<and> maxCases (allData f ! i)
               = JStr (max4 (map (\<lambda>r. count (cases r)) (date_group records (dateRep (records ! i)))))
           \<and> maxDeaths (allData f ! i)
               = JStr (max4 (map (\<lambda>r. count (deaths r)) (date_group records (dateRep (records ! i)))))"
proof -
  define r where "r = records ! i"
  define tc where "tc = foldl (\<lambda>t r. add_total t (countriesAndTerritories r) (count (cases r))) Map.empty records"
  define td where "td = foldl (\<lambda>t r. add_total t (countriesAndTerritories r) (count (deaths r))) Map.empty records"
  define D where "D = foldl daily_put [] records"
  define row1 where "row1 = backfill_totals tc td (row_of r)"
  define row where "row = foldl (\<lambda>data entry. daily_row entry data) row1 D"
  define g where "g = date_group records (dateRep r)"
  have r_in: "r \<in> set records" using i by (simp add: r_def)
  from fetchData_rows [OF ok lim] obtain f where f: "fetchData max_arguments records = Inr f"
    and rows: "allData f = map (\<lambda>r. foldl (\<lambda>data entry. daily_row entry data)
                                  (backfill_totals tc td (row_of r)) D) records"
    unfolding tc_def td_def D_def by blast
  have nth: "allData f ! i = row"
    using i by (simp add: rows row_def row1_def r_def)
  have len: "length (allData f) = length records" by (simp add: rows)
  have d1: "date row1 = dateRep r" by (simp add: row1_def)
  have "daily_entry [] (dateRep r) = ([], [])" by (simp add: daily_entry_def)
  then have "daily_entry D (dateRep r)
               = (map (\<lambda>r. count (cases r)) g, map (\<lambda>r. count (deaths r)) g)"
    unfolding D_def g_def by (simp add: daily_entry_foldl)
  moreover have "dateRep r \<in> fst ` set D"
    unfolding D_def using r_in by (simp add: keys_foldl_daily_put)
  ultimately have entry: "map_of D (date row1)
      = Some (map (\<lambda>r. count (cases r)) g, map (\<lambda>r. count (deaths r)) g)"
    unfolding d1 by (auto simp: daily_entry_def map_of_eq_None_iff split: option.splits)
  have dist: "distinct (map fst D)"
    unfolding D_def by (rule distinct_foldl_daily_put) simp
  have "row = daily_row (date row1, map (\<lambda>r. count (cases r)) g, map (\<lambda>r. count (deaths r)) g) row1"
    unfolding row_def using dist entry by (rule foldl_daily_row_match)
  then have daily:
    "averageCases row = JStr (average4 (map (\<lambda>r. count (cases r)) g))"
    "averageDeaths row = JStr (average4 (map (\<lambda>r. count (deaths r)) g))"
    "maxCases row = JStr (max4 (map (\<lambda>r. count (cases r)) g))"
    "maxDeaths row = JStr (max4 (map (\<lambda>r. count (deaths r)) g))"
    by (simp_all add: daily_row_def)
  have other: "country row = countriesAndTerritories r" "date row = dateRep r"
    "totalCases row = dict_get tc (countriesAndTerritories r)"
    "totalDeaths row = dict_get td (countriesAndTerritories r)"
    by (simp_all add: row_def row1_def)
  show ?thesis
    using f len nth daily other unfolding g_def r_def tc_def td_def by simp
qed

subsection \<open>When \<open>fetchData\<close> throws\<close>

lemma fetchData_RangeError:
  assumes "max_arguments < length records"
  shows "fetchData max_arguments records = Inl RangeError"
  using assms by (simp add: fetchData_def for_each_process_record Let_def)

lemma daily_add_TypeError:
  assumes "dateRep r \<in> set Object_prototype_names" "dateRep r \<notin> fst ` set D"
  shows "daily_add r D = Inl TypeError"
proof -
  from assms(2) have none: "map_of D (dateRep r) = None" by (simp add: map_of_eq_None_iff)
  show ?thesis
  proof (cases "dateRep r = ''__proto__''")
    case True
    have "dict_get (map_of D) ''__proto__'' = Inherited_prototype"
      using none unfolding True by (simp add: dict_get_def)
    then show ?thesis by (simp add: daily_add_def True)
  next
    case False
    with assms(1) have "dateRep r \<in> set Object_prototype_functions"
      by (simp add: Object_prototype_names_def)
    with False none have "dict_get (map_of D) (dateRep r) = Inherited_function (dateRep r)"
      by (simp add: dict_get_def)
    then show ?thesis by (simp add: daily_add_def)
  qed
qed

lemma keys_daily_put: "fst ` set (daily_put D r) = insert (dateRep r) (fst ` set D)"
proof -
  have "set (map fst (daily_put D r)) = insert (dateRep r) (set (map fst D))"
    unfolding fst_daily_put by auto
  then show ?thesis by simp
qed

lemma for_each_daily_add_TypeError:
  assumes "\<exists>r\<in>set records. dateRep r \<in> set Object_prototype_names"
      and "\<forall>k\<in>fst ` set D. k \<notin> set Object_prototype_names"
  shows "for_each daily_add records D = Inl TypeError"
  using assms
proof (induction records arbitrary: D)
  case Nil
  then show ?case by simp
next
  case (Cons r records)
  show ?case
  proof (cases "dateRep r \<in> set Object_prototype_names")
    case True
    with Cons.prems(2) have "dateRep r \<notin> fst ` set D" by blast
    with True have "daily_add r D = Inl TypeError" by (rule daily_add_TypeError)
    then show ?thesis by (simp only: for_each.simps sum.case)
  next
    case False
    then have step: "daily_add r D = Inr (daily_put D r)" by (rule daily_add_ordinary)
    from False Cons.prems(2)
    have keys: "\<forall>k\<in>fst ` set (daily_put D r). k \<notin> set Object_prototype_names"
      unfolding keys_daily_put by blast
    from Cons.prems(1) have "dateRep r \<in> set Object_prototype_names
        \<or> (\<exists>r\<in>set records. dateRep r \<in> set Object_prototype_names)"
      by (simp only: list.set bex_simps Bex_def) blast
    with False have "\<exists>r\<in>set records. dateRep r \<in> set Object_prototype_names" by blast
    then have "for_each daily_add records (daily_put D r) = Inl TypeError"
      using keys by (rule Cons.IH)
    then show ?thesis by (simp only: for_each.simps step sum.case)
  qed
qed

lemma fetchData_TypeError:
  assumes "\<exists>r\<in>set records. dateRep r \<in> set Object_prototype_names"
      and "length records \<le> max_arguments"
  shows "fetchData max_arguments records = Inl TypeError"
proof -
  have "for_each daily_add records [] = Inl TypeError"
    by (rule for_each_daily_add_TypeError [OF assms(1)]) simp
  with assms(2) show ?thesis
    by (simp add: fetchData_def for_each_process_record Let_def)
qed

subsection \<open>The totals of a country\<close>

lemmas name_defs = Object_prototype_names_def Object_prototype_functions_def

lemma fetchData_throws:
  "fetchData 65535 [\<lparr>countriesAndTerritories = ''X'', dateRep = ''constructor'', cases = 1,
                     deaths = 0, popData2019 = None\<rparr>] = Inl TypeError"
  "fetchData 65535 (replicate 65536 \<lparr>countriesAndTerritories = ''X'', dateRep = ''01/01/2020'',
                                       cases = 1, deaths = 0, popData2019 = None\<rparr>)
     = Inl RangeError"
proof -
  show "fetchData 65535 [\<lparr>countriesAndTerritories = ''X'', dateRep = ''constructor'', cases = 1,
                     deaths = 0, popData2019 = None\<rparr>] = Inl TypeError"
    by (rule fetchData_TypeError) (simp_all add: name_defs)
  show "fetchData 65535 (replicate 65536 \<lparr>countriesAndTerritories = ''X'', dateRep = ''01/01/2020'',
                                       cases = 1, deaths = 0, popData2019 = None\<rparr>)
     = Inl RangeError"
    by (rule fetchData_RangeError) simp
qed




lemma count_evals:
  "count 0 = Finite 0" "count 1 = Finite 1" "count 5 = Finite 5"
  "count (2 ^ 53) = Finite (2 ^ 53)"
  by (simp_all add: count_def double_defs)




subsection \<open>The aggregates of a date\<close>

text \<open>
  C5, as amended. For every list of raw records in which no date is the name of a property
  of \<^verbatim>\<open>Object.prototype\<close>, and which is no longer than the number of arguments the
  engine accepts, \<^verbatim>\<open>fetchData\<close> returns one row per record, in order, and the row of a
  record carries its date string. When the cases of the records with exactly that date
  string add up in magnitude to at most \<open>2 ^ 53\<close>, the row's \<^verbatim>\<open>averageCases\<close> is the
  double nearest to their arithmetic mean, and its \<^verbatim>\<open>maxCases\<close> is their maximum, each
  formatted with exactly 4 digits after the decimal point; likewise \<^verbatim>\<open>averageDeaths\<close>
  and \<^verbatim>\<open>maxDeaths\<close> and the deaths. For example, two records of one date with cases 10
  and 20 give both rows the average \<open>"15.0000"\<close> and the maximum \<open>"20.0000"\<close>. (The claim
  as stated formats the mean itself and has none of the provisos.)
\<close>

theorem daily_aggregates:
  assumes "\<forall>r\<in>set records. dateRep r \<notin> set Object_prototype_names"
      and "length records \<le> max_arguments"
  shows "\<exists>f. fetchData max_arguments records = Inr f \<and> length (allData f) = length records
     \<and> (\<forall>i<length records.
          date (allData f ! i) = dateRep (records ! i)
          \<and> (magnitude (map cases (date_group records (dateRep (records ! i)))) \<le> 2 ^ 53
             \<longrightarrow> averageCases (allData f ! i)
                   = JStr (fixed_point 4 (nearest (mean (map cases
                       (date_group records (dateRep (records ! i)))))))
                 \<and> maxCases (allData f ! i)
                   = JStr (fixed_point 4 (maximum (map cases
                       (date_group records (dateRep (records ! i)))))))
          \<and> (magnitude (map deaths (date_group records (dateRep (records ! i)))) \<le> 2 ^ 53
             \<longrightarrow> averageDeaths (allData f ! i)
                   = JStr (fixed_point 4 (nearest (mean (map deaths
                       (date_group records (dateRep (records ! i)))))))
                 \<and> maxDeaths (allData f ! i)
                   = JStr (fixed_point 4 (maximum (map deaths
                       (date_group records (dateRep (records ! i))))))))"
proof -
  from fetchData_rows [OF assms] obtain f where f: "fetchData max_arguments records = Inr f" by blast
  have len: "length (allData f) = length records"
    using fetchData_rows [OF assms] f by auto
  have fields: "date (allData f ! i) = dateRep (records ! i)
      \<and> averageCases (allData f ! i)
          = JStr (average4 (map count (map cases (date_group records (dateRep (records ! i))))))
      \<and> averageDeaths (allData f ! i)
          = JStr (average4 (map count (map deaths (date_group records (dateRep (records ! i))))))
      \<and> maxCases (allData f ! i)
          = JStr (max4 (map count (map cases (date_group records (dateRep (records ! i))))))
      \<and> maxDeaths (allData f ! i)
          = JStr (max4 (map count (map deaths (date_group records (dateRep (records ! i))))))"
    if "i < length records" for i
    using fetchData_daily [OF assms that] f by (auto simp add: comp_def)
  have ne: "map val (date_group records (dateRep (records ! i))) \<noteq> []"
    if "i < length records" for i and val :: "raw_record \<Rightarrow> int"
  proof -
    from that have "records ! i \<in> set records" by simp
    then show ?thesis by (auto simp add: date_group_def filter_empty_conv)
  qed
  have agg: "average4 (map count (map val (date_group records (dateRep (records ! i)))))
               = fixed_point 4 (nearest (mean (map val (date_group records (dateRep (records ! i))))))
             \<and> max4 (map count (map val (date_group records (dateRep (records ! i)))))
               = fixed_point 4 (maximum (map val (date_group records (dateRep (records ! i)))))"
    if "i < length records"
      "magnitude (map val (date_group records (dateRep (records ! i)))) \<le> 2 ^ 53"
    for i and val :: "raw_record \<Rightarrow> int"
    using average4_mean [OF ne [OF that(1)] that(2)] max4_maximum [OF ne [OF that(1)] that(2)]
    by simp
  from f len fields agg show ?thesis by (intro exI [of _ f]) simp
qed

theorem daily_aggregates_witness:
  "\<exists>f. fetchData 65535
       [\<lparr>countriesAndTerritories = ''X'', dateRep = ''01/01/2020'', cases = 10, deaths = 0,
         popData2019 = Some 1000\<rparr>,
        \<lparr>countriesAndTerritories = ''Y'', dateRep = ''01/01/2020'', cases = 20, deaths = 1,
         popData2019 = None\<rparr>] = Inr f
     \<and> length (allData f) = 2
     \<and> averageCases (allData f ! 0) = JStr ''15.0000''
     \<and> maxCases (allData f ! 0) = JStr ''20.0000''
     \<and> averageCases (allData f ! 1) = JStr ''15.0000''
     \<and> maxCases (allData f ! 1) = JStr ''20.0000''
     \<and> averageDeaths (allData f ! 1) = JStr ''0.5000''"
proof -
  let ?rs = "[\<lparr>countriesAndTerritories = ''X'', dateRep = ''01/01/2020'', cases = 10, deaths = 0,
         popData2019 = Some 1000\<rparr>,
        \<lparr>countriesAndTerritories = ''Y'', dateRep = ''01/01/2020'', cases = 20, deaths = 1,
         popData2019 = None\<rparr>]"
  have ok: "\<forall>r\<in>set ?rs. dateRep r \<notin> set Object_prototype_names"
    by (simp add: name_defs)
  have lim: "length ?rs \<le> 65535" by simp
  from daily_aggregates [OF ok lim] obtain f where f: "fetchData 65535 ?rs = Inr f"
    and len: "length (allData f) = length ?rs"
    and agg: "\<forall>i<length ?rs.
          date (allData f ! i) = dateRep (?rs ! i)
          \<and> (magnitude (map cases (date_group ?rs (dateRep (?rs ! i)))) \<le> 2 ^ 53
             \<longrightarrow> averageCases (allData f ! i)
                   = JStr (fixed_point 4 (nearest (mean (map cases
                       (date_group ?rs (dateRep (?rs ! i)))))))
                 \<and> maxCases (allData f ! i)
                   = JStr (fixed_point 4 (maximum (map cases
                       (date_group ?rs (dateRep (?rs ! i)))))))
          \<and> (magnitude (map deaths (date_group ?rs (dateRep (?rs ! i)))) \<le> 2 ^ 53
             \<longrightarrow> averageDeaths (allData f ! i)
                   = JStr (fixed_point 4 (nearest (mean (map deaths
                       (date_group ?rs (dateRep (?rs ! i)))))))
                 \<and> maxDeaths (allData f ! i)
                   = JStr (fixed_point 4 (maximum (map deaths
                       (date_group ?rs (dateRep (?rs ! i)))))))"
    by blast
  have n15: "nearest 15 = 15" and n05: "nearest (1 / 2) = 1 / 2"
    by (simp_all add: double_defs)
  have f15: "fixed_point 4 15 = ''15.0000''" and f20: "fixed_point 4 20 = ''20.0000''"
    and f05: "fixed_point 4 (1 / 2) = ''0.5000''"
    by (simp_all add: number_defs)
  have i0: "(0::nat) < length ?rs" and i1: "(1::nat) < length ?rs" by simp_all
  note a0 = agg [rule_format, OF i0] and a1 = agg [rule_format, OF i1]
  from a0 have "averageCases (allData f ! 0) = JStr ''15.0000''"
    and "maxCases (allData f ! 0) = JStr ''20.0000''"
    by (simp_all add: date_group_def magnitude_def mean_def maximum_def n15 f15 f20)
  moreover from a1 have "averageCases (allData f ! 1) = JStr ''15.0000''"
    and "maxCases (allData f ! 1) = JStr ''20.0000''"
    and "averageDeaths (allData f ! 1) = JStr ''0.5000''"
    by (simp_all add: date_group_def magnitude_def mean_def maximum_def n15 n05 f15 f20 f05)
  ultimately show ?thesis using f len by simp
qed

lemma toString_1e21: "pos_toString 1000000000000000000000 = ''1e+21''"
proof -
  have "Number_value 1000000000000000000000 = Finite 1000000000000000000000"
    "Number_value 2000000000000000000000 \<noteq> Finite 1000000000000000000000"
    by (simp_all add: double_defs)
  then have "pick 1000000000000000000000 1000000000000000000000 1 = Some 1"
    by (simp add: pick_def reads_back_def)
  moreover have "ilog10 400 1000000000000000000000 = 21" by (simp add: ilog10_numeral)
  ultimately have "shortest 17 1000000000000000000000 (ilog10 400 1000000000000000000000) = (1, 21)"
    by (simp add: shortest_numeral pow10_def)
  then show ?thesis
    by (simp add: pos_toString_def digits_eval digit_char_def strip_zeros_def)
qed

text \<open>
  The claim C5 as stated fails in five ways. (1) 160 records of one date with 3 cases in
  all: the mean is \<open>3 / 160 = 0.01875\<close>, which with 4 digits after the point is
  \<open>"0.0188"\<close>; the quotient of the doubles lies below it and prints as \<open>"0.0187"\<close>.
  (2) A record whose date is \<^verbatim>\<open>constructor\<close>: the loop over the records throws and no row
  gets an aggregate. (3) Four records of one date with \<open>2 ^ 53\<close>, 1, 1 and 1 cases: the sum
  of the doubles stays at \<open>2 ^ 53\<close> and the average is \<open>2 ^ 51\<close>, where the double nearest
  to the mean is \<open>2 ^ 51 + 1\<close>. (4) One record with \<open>10 ^ 21\<close> cases: the average and the
  maximum print as \<open>"1e+21"\<close>, with no digit after a point. (5) In an engine that
  accepts 65535 arguments, 65536 records: \<^verbatim>\<open>Math.min(...dates)\<close> throws.
\<close>

theorem daily_aggregates_counterexample:
  "map_sum (\<lambda>e. e) (\<lambda>f. averageCases (allData f ! 0))
     (fetchData 65535 (replicate 159 \<lparr>countriesAndTerritories = ''X'', dateRep = ''01/01/2020'',
                                cases = 0, deaths = 0, popData2019 = None\<rparr>
                 @ [\<lparr>countriesAndTerritories = ''Y'', dateRep = ''01/01/2020'',
                     cases = 3, deaths = 0, popData2019 = None\<rparr>]))
     = Inr (JStr ''0.0187'')
   \<and> fixed_point 4 (mean (replicate 159 0 @ [3])) = ''0.0188''
   \<and> fetchData 65535 [\<lparr>countriesAndTerritories = ''X'', dateRep = ''constructor'', cases = 1,
                  deaths = 0, popData2019 = None\<rparr>] = Inl TypeError
   \<and> map_sum (\<lambda>e. e) (\<lambda>f. averageCases (allData f ! 0))
       (fetchData 65535 [\<lparr>countriesAndTerritories = ''A'', dateRep = ''01/01/2020'', cases = 2 ^ 53,
                     deaths = 0, popData2019 = None\<rparr>,
                   \<lparr>countriesAndTerritories = ''B'', dateRep = ''01/01/2020'', cases = 1,
                     deaths = 0, popData2019 = None\<rparr>,
                   \<lparr>countriesAndTerritories = ''C'', dateRep = ''01/01/2020'', cases = 1,
                     deaths = 0, popData2019 = None\<rparr>,
                   \<lparr>countriesAndTerritories = ''D'', dateRep = ''01/01/2020'', cases = 1,
                     deaths = 0, popData2019 = None\<rparr>])
     = Inr (JStr ''2251799813685248.0000'')
   \<and> fixed_point 4 (nearest (mean [2 ^ 53, 1, 1, 1])) = ''2251799813685249.0000''
   \<and> map_sum (\<lambda>e. e) (\<lambda>f. (averageCases (allData f ! 0), maxCases (allData f ! 0)))
       (fetchData 65535 [\<lparr>countriesAndTerritories = ''X'', dateRep = ''01/01/2020'', cases = 10 ^ 21,
                     deaths = 0, popData2019 = None\<rparr>])
     = Inr (JStr ''1e+21'', JStr ''1e+21'')
   \<and> fetchData 65535 (replicate 65536 \<lparr>countriesAndTerritories = ''X'', dateRep = ''01/01/2020'',
                                          cases = 1, deaths = 0, popData2019 = None\<rparr>)
       = Inl RangeError"
proof -
  let ?r0 = "\<lparr>countriesAndTerritories = ''X'', dateRep = ''01/01/2020'',
              cases = 0, deaths = 0, popData2019 = None\<rparr>"
  let ?r3 = "\<lparr>countriesAndTerritories = ''Y'', dateRep = ''01/01/2020'',
              cases = 3, deaths = 0, popData2019 = None\<rparr>"
  let ?rs = "replicate 159 ?r0 @ [?r3]"
  have ok: "\<forall>r\<in>set ?rs. dateRep r \<notin> set Object_prototype_names"
    by (auto simp add: name_defs)
  have i: "0 < length ?rs" by simp
  have r0: "?rs ! 0 = ?r0" by (simp add: nth_append)
  have g: "map (\<lambda>r. count (cases r)) (date_group ?rs (dateRep (?rs ! 0)))
             = map count (replicate 159 0 @ [3])"
    unfolding r0 by (simp add: date_group_def)
  have m: "mean (replicate 159 0 @ [3]) = 3 / 160" by (simp add: mean_def sum_list_replicate)
  have "average4 (map count (replicate 159 0 @ [3])) = fixed_point 4 (nearest (mean (replicate 159 0 @ [3])))"
    by (rule average4_mean) (simp_all add: magnitude_def sum_list_replicate)
  also have "\<dots> = ''0.0187''"
    unfolding m by (simp add: double_defs number_defs)
  finally have "average4 (map count (replicate 159 0 @ [3])) = ''0.0187''" .
  then have a: "average4 (replicate 159 (count 0) @ [count 3]) = ''0.0187''" by simp
  have lim: "length ?rs \<le> 65535" by simp
  from fetchData_daily [OF ok lim i] obtain f where "fetchData 65535 ?rs = Inr f"
    "averageCases (allData f ! 0) = JStr (average4 (map count (replicate 159 0 @ [3])))"
    unfolding g by blast
  then have c1: "map_sum (\<lambda>e. e) (\<lambda>f. averageCases (allData f ! 0)) (fetchData 65535 ?rs)
                   = Inr (JStr ''0.0187'')"
    by (simp add: a)
  have c2: "fixed_point 4 (mean (replicate 159 0 @ [3])) = ''0.0188''"
    unfolding m by (simp add: number_defs)
  have c3: "fetchData 65535 [\<lparr>countriesAndTerritories = ''X'', dateRep = ''constructor'', cases = 1,
                  deaths = 0, popData2019 = None\<rparr>] = Inl TypeError"
  proof -
    let ?bad = "[\<lparr>countriesAndTerritories = ''X'', dateRep = ''constructor'', cases = 1,
                  deaths = 0, popData2019 = None\<rparr>]"
    have d: "for_each daily_add ?bad [] = Inl TypeError"
      by (simp add: daily_add_def dict_get_def name_defs)
    show ?thesis
      unfolding fetchData_def for_each_process_record d by (simp add: Let_def)
  qed
  let ?big = "[\<lparr>countriesAndTerritories = ''A'', dateRep = ''01/01/2020'', cases = 2 ^ 53,
                     deaths = 0, popData2019 = None\<rparr>,
                   \<lparr>countriesAndTerritories = ''B'', dateRep = ''01/01/2020'', cases = 1,
                     deaths = 0, popData2019 = None\<rparr>,
                   \<lparr>countriesAndTerritories = ''C'', dateRep = ''01/01/2020'', cases = 1,
                     deaths = 0, popData2019 = None\<rparr>,
                   \<lparr>countriesAndTerritories = ''D'', dateRep = ''01/01/2020'', cases = 1,
                     deaths = 0, popData2019 = None\<rparr>]"
  have okb: "\<forall>r\<in>set ?big. dateRep r \<notin> set Object_prototype_names"
    by (simp add: name_defs)
  have ib: "0 < length ?big" by simp
  have s1: "Number_add (Finite 0) (Finite 9007199254740992) = Finite 9007199254740992"
    and s2: "Number_add (Finite 9007199254740992) (Finite 1) = Finite 9007199254740992"
    and s3: "Number_divide (Finite 9007199254740992) (Finite 4) = Finite 2251799813685248"
    by (simp_all add: double_defs)
  have ab: "average4 [Finite 9007199254740992, Finite 1, Finite 1, Finite 1] = ''2251799813685248.0000''"
    by (simp add: average4_def s1 s2 s3 number_defs)
  have limb: "length ?big \<le> 65535" by simp
  from fetchData_daily [OF okb limb ib] obtain fb where "fetchData 65535 ?big = Inr fb"
    "averageCases (allData fb ! 0)
       = JStr (average4 (map (\<lambda>r. count (cases r)) (date_group ?big (dateRep (?big ! 0)))))"
    by blast
  then have c4: "map_sum (\<lambda>e. e) (\<lambda>f. averageCases (allData f ! 0)) (fetchData 65535 ?big)
                   = Inr (JStr ''2251799813685248.0000'')"
    using count_evals(2,4) ab by (simp add: date_group_def)
  have c5: "fixed_point 4 (nearest (mean [2 ^ 53, 1, 1, 1])) = ''2251799813685249.0000''"
    by (simp add: mean_def double_defs number_defs)
  let ?huge = "[\<lparr>countriesAndTerritories = ''X'', dateRep = ''01/01/2020'', cases = 10 ^ 21,
                     deaths = 0, popData2019 = None\<rparr>]"
  have okh: "\<forall>r\<in>set ?huge. dateRep r \<notin> set Object_prototype_names"
    by (simp add: name_defs)
  have ih: "0 < length ?huge" by simp
  have ch: "count 1000000000000000000000 = Finite 1000000000000000000000"
    and h1: "Number_add (Finite 0) (Finite 1000000000000000000000) = Finite 1000000000000000000000"
    and h2: "Number_divide (Finite 1000000000000000000000) (Finite 1) = Finite 1000000000000000000000"
    by (simp_all add: count_def double_defs)
  have ah: "average4 [Finite 1000000000000000000000] = ''1e+21''"
    by (simp add: average4_def h1 h2 toFixed_def toString_1e21)
  have mh: "max4 [Finite 1000000000000000000000] = ''1e+21''"
    by (simp add: max4_def Math_max_def toFixed_def toString_1e21)
  have limh: "length ?huge \<le> 65535" by simp
  from fetchData_daily [OF okh limh ih] obtain fh where "fetchData 65535 ?huge = Inr fh"
    "averageCases (allData fh ! 0)
       = JStr (average4 (map (\<lambda>r. count (cases r)) (date_group ?huge (dateRep (?huge ! 0)))))"
    "maxCases (allData fh ! 0)
       = JStr (max4 (map (\<lambda>r. count (cases r)) (date_group ?huge (dateRep (?huge ! 0)))))"
    by blast
  then have c6: "map_sum (\<lambda>e. e) (\<lambda>f. (averageCases (allData f ! 0), maxCases (allData f ! 0)))
                   (fetchData 65535 ?huge) = Inr (JStr ''1e+21'', JStr ''1e+21'')"
    using ch ah mh by (simp add: date_group_def)
  from c1 c2 c3 c4 c5 c6 fetchData_throws(2) show ?thesis by blast
qed

end
